theory Spec2Isabelle
  imports Complex_Main
begin

section \<open>Python helpers\<close>

text \<open>
  \<open>sep.join(xs)\<close> of Python, and \<open>str(n)\<close> for a non-negative integer (decimal digits,
  no leading zero).
\<close>

fun join :: "string \<Rightarrow> string list \<Rightarrow> string" where
  "join sep [] = []"
| "join sep [x] = x"
| "join sep (x # y # ys) = x @ sep @ join sep (y # ys)"

definition digit_char :: "nat \<Rightarrow> char" where
  "digit_char d = char_of (48 + d)"

fun str_nat :: "nat \<Rightarrow> string" where
  "str_nat n = (if n < 10 then [digit_char n] else str_nat (n div 10) @ [digit_char (n mod 10)])"

declare str_nat.simps [simp del]

fun enumerate_from :: "nat \<Rightarrow> 'a list \<Rightarrow> (nat \<times> 'a) list" where
  "enumerate_from i [] = []"
| "enumerate_from i (x # xs) = (i, x) # enumerate_from (Suc i) xs"

text \<open>A newline, the blank-line separator, and a text between single quotes.\<close>

definition nl :: string where
  "nl = [CHR 0x0A]"

definition nlnl :: string where
  "nlnl = [CHR 0x0A, CHR 0x0A]"

definition quoted :: "string \<Rightarrow> string" where
  "quoted s = CHR 0x27 # s @ [CHR 0x27]"

text \<open>\<open>range(start, stop, step)\<close> for a positive step, as the list it iterates over.\<close>

definition py_range :: "nat \<Rightarrow> nat \<Rightarrow> nat \<Rightarrow> nat list" where
  "py_range start stop step =
     map (\<lambda>k. start + k * step) [0 ..< (stop - start + step - 1) div step]"

section \<open>Data model\<close>

text \<open>
  Float vectors are lists of reals (rounding and NaN are not modelled: the vectors are only
  carried around and handed to the similarity functions of the storage engine).
  A sparse vector is what \<open>as_object()\<close> returns: parallel lists of indices and values.
\<close>

type_synonym dense_vec = "real list"
type_synonym multi_vec = "real list list"

record sparse_vec =
  sv_indices :: "nat list"
  sv_values :: "real list"

datatype vec = DenseV dense_vec | SparseV sparse_vec | MultiV multi_vec

text \<open>A payload and a chunk are dicts with string keys, in insertion order.\<close>

type_synonym payload = "(string \<times> string) list"
type_synonym chunk = "(string \<times> string) list"

record point =
  pid :: string
  payload :: payload
  vector :: "(string \<times> vec) list"

datatype distance = COSINE
datatype comparator = MAX_SIM
datatype modifier = IDF

record vector_params =
  vp_size :: nat
  vp_distance :: distance
  multivector_config :: "comparator option"
  hnsw_m :: "nat option"

record schema =
  vectors_config :: "(string \<times> vector_params) list"
  sparse_vectors_config :: "(string \<times> modifier) list"

record collection =
  config :: schema
  points :: "point list"

record prefetch =
  pf_query :: vec
  pf_using :: string
  pf_limit :: nat

record query_request =
  qr_query :: vec
  qr_using :: string
  qr_prefetch :: "prefetch list"
  qr_limit :: nat

record scored_point =
  sp_id :: string
  sp_score :: real
  sp_payload :: payload

datatype error =
    FileError string
  | KeyError string
  | IndexError
  | ValueError string
  | EmbeddingFailure string
  | StorageFailure string
  | CollectionNotFound string
  | PyException string

text \<open>\<open>str(e)\<close>, as \<open>print(f"[ERROR] {e}")\<close> renders it.\<close>

fun str_error :: "error \<Rightarrow> string" where
  "str_error (FileError m) = m"
| "str_error (KeyError k) = quoted k"
| "str_error IndexError = ''list index out of range''"
| "str_error (ValueError m) = m"
| "str_error (EmbeddingFailure m) = m"
| "str_error (StorageFailure m) = m"
| "str_error (CollectionNotFound n) = ''Collection '' @ n @ '' not found''"
| "str_error (PyException m) = m"

section \<open>The world outside the program\<close>

datatype model_kind = DenseModel | Bm25Model | ColbertModel

datatype storage_call =
    CollectionExists string
  | Count string
  | DeleteCollection string
  | CreateCollection string schema
  | Upsert string "point list"
  | QueryPoints string query_request
  | Scroll string nat

datatype event =
    Print string
  | QueryEmbed model_kind string
  | Embed model_kind "string list"
  | Storage storage_call
  | HttpPost string string

text \<open>
  The state the program acts on: the collections of the storage engine, and the trace of
  everything the program did to the outside (prints, model invocations, storage calls,
  HTTP requests), oldest first.
\<close>

record world =
  collections :: "string \<rightharpoonup> collection"
  trace :: "event list"

text \<open>
  What the program cannot decide itself: the file system, the three embedding models (each
  may raise), the random ids, which storage calls fail, the similarity functions of the
  storage engine, the tokenizer, Python's \<open>str\<close> of a dict and the generation server.
\<close>

record env =
  read_json :: "string \<Rightarrow> error + chunk list"
  dense_embed :: "string \<Rightarrow> error + dense_vec"
  bm25_embed :: "string \<Rightarrow> error + sparse_vec"
  colbert_embed :: "string \<Rightarrow> error + multi_vec"
  dense_query_embed :: "string \<Rightarrow> error + dense_vec"
  bm25_query_embed :: "string \<Rightarrow> error + sparse_vec"
  colbert_query_embed :: "string \<Rightarrow> error + multi_vec"
  uuid4 :: "nat \<Rightarrow> string"
  fault :: "storage_call \<Rightarrow> bool"
  similarity :: "string \<Rightarrow> vec \<Rightarrow> vec \<Rightarrow> real"
  tokenizer_encode :: "string \<Rightarrow> nat list"
  str_payload :: "payload \<Rightarrow> string"
  ollama :: "string \<Rightarrow> string \<Rightarrow> error + string option"

definition emit :: "event \<Rightarrow> world \<Rightarrow> world" where
  "emit e w = w\<lparr>trace := trace w @ [e]\<rparr>"

definition print :: "string \<Rightarrow> world \<Rightarrow> world" where
  "print s w = emit (Print s) w"

section \<open>The storage engine\<close>

text \<open>
  Modelled from the spec: the storage engine (the Qdrant client) is a library the repository
  calls, not code of the repository. Its operations follow the functional contract of the
  spec's storage interface: \<open>collection_exists\<close>, \<open>create_collection\<close>,
  \<open>delete_collection\<close>, \<open>upsert\<close>, \<open>search\<close> with prefetch, \<open>scroll\<close> and
  \<open>count\<close>. Each call is recorded in the trace, and fails with a storage failure when the
  environment says so.
\<close>

definition storage_failure :: error where
  "storage_failure = StorageFailure ''storage call failed''"

definition collection_exists :: "env \<Rightarrow> string \<Rightarrow> world \<Rightarrow> (error + bool) \<times> world" where
  "collection_exists E name w =
     (let c = CollectionExists name; w1 = emit (Storage c) w in
      if fault E c then (Inl storage_failure, w1)
      else (Inr (collections w1 name \<noteq> None), w1))"

definition count :: "env \<Rightarrow> string \<Rightarrow> world \<Rightarrow> (error + nat) \<times> world" where
  "count E name w =
     (let c = Count name; w1 = emit (Storage c) w in
      if fault E c then (Inl storage_failure, w1)
      else (case collections w1 name of
              None \<Rightarrow> (Inl (CollectionNotFound name), w1)
            | Some col \<Rightarrow> (Inr (length (points col)), w1)))"

definition delete_collection :: "env \<Rightarrow> string \<Rightarrow> world \<Rightarrow> (error + unit) \<times> world" where
  "delete_collection E name w =
     (let c = DeleteCollection name; w1 = emit (Storage c) w in
      if fault E c then (Inl storage_failure, w1)
      else (Inr (), w1\<lparr>collections := (collections w1)(name := None)\<rparr>))"

definition create_collection ::
  "env \<Rightarrow> string \<Rightarrow> schema \<Rightarrow> world \<Rightarrow> (error + unit) \<times> world" where
  "create_collection E name sch w =
     (let c = CreateCollection name sch; w1 = emit (Storage c) w in
      if fault E c then (Inl storage_failure, w1)
      else (case collections w1 name of
              Some col \<Rightarrow> (Inl (ValueError (''Collection '' @ name @ '' already exists'')), w1)
            | None \<Rightarrow>
                (Inr (), w1\<lparr>collections :=
                   (collections w1)(name \<mapsto> \<lparr>config = sch, points = []\<rparr>)\<rparr>)))"

text \<open>
  Modelled from the spec: \<open>upsert\<close> of the storage engine. A point whose id is already
  stored replaces the stored one, a point with a new id is appended; a call that fails
  stores nothing.
\<close>

definition upsert_point :: "point list \<Rightarrow> point \<Rightarrow> point list" where
  "upsert_point ps p =
     (if pid p \<in> set (map pid ps) then map (\<lambda>q. if pid q = pid p then p else q) ps
      else ps @ [p])"

definition upsert :: "env \<Rightarrow> string \<Rightarrow> point list \<Rightarrow> world \<Rightarrow> (error + unit) \<times> world" where
  "upsert E name ps w =
     (let c = Upsert name ps; w1 = emit (Storage c) w in
      if fault E c then (Inl storage_failure, w1)
      else (case collections w1 name of
              None \<Rightarrow> (Inl (CollectionNotFound name), w1)
            | Some col \<Rightarrow>
                (Inr (), w1\<lparr>collections :=
                   (collections w1)(name \<mapsto> col\<lparr>points := foldl upsert_point (points col) ps\<rparr>)\<rparr>)))"

text \<open>
  Modelled from the spec: \<open>scroll\<close> of the storage engine. It returns one page of at most
  \<open>limit\<close> points in storage order, and the offset of the next page when there is one.
\<close>

definition scroll ::
  "env \<Rightarrow> string \<Rightarrow> nat \<Rightarrow> world \<Rightarrow> (error + point list \<times> nat option) \<times> world" where
  "scroll E name limit w =
     (let c = Scroll name limit; w1 = emit (Storage c) w in
      if fault E c then (Inl storage_failure, w1)
      else (case collections w1 name of
              None \<Rightarrow> (Inl (CollectionNotFound name), w1)
            | Some col \<Rightarrow>
                (Inr (take limit (points col),
                      if limit < length (points col) then Some limit else None), w1)))"

text \<open>
  Modelled from the spec: \<open>search\<close> with prefetch of the storage engine (the client's
  \<open>query_points\<close>). The score of a point in a vector space is the similarity of the query
  vector and the point's vector of that space; a point without that vector is no candidate.
  Each prefetch gives its top candidates by its own score; the union of the prefetches,
  deduplicated by point id, is scored again in the space of the outer query, ordered by
  descending score (a stable sort: ties keep their order) and truncated to the limit.
\<close>

definition score_in :: "env \<Rightarrow> string \<Rightarrow> vec \<Rightarrow> point \<Rightarrow> real option" where
  "score_in E space q p = map_option (similarity E space q) (map_of (vector p) space)"

definition top_k :: "env \<Rightarrow> string \<Rightarrow> vec \<Rightarrow> nat \<Rightarrow> point list \<Rightarrow> point list" where
  "top_k E space q k ps =
     take k (sort_key (\<lambda>p. - the (score_in E space q p))
                      (filter (\<lambda>p. score_in E space q p \<noteq> None) ps))"

fun dedup_by_id :: "point list \<Rightarrow> point list" where
  "dedup_by_id [] = []"
| "dedup_by_id (p # ps) = p # dedup_by_id (filter (\<lambda>q. pid q \<noteq> pid p) ps)"

definition run_prefetch :: "env \<Rightarrow> point list \<Rightarrow> prefetch \<Rightarrow> point list" where
  "run_prefetch E ps pf = top_k E (pf_using pf) (pf_query pf) (pf_limit pf) ps"

definition candidates :: "env \<Rightarrow> point list \<Rightarrow> prefetch list \<Rightarrow> point list" where
  "candidates E ps pfs = dedup_by_id (concat (map (run_prefetch E ps) pfs))"

definition to_scored :: "env \<Rightarrow> string \<Rightarrow> vec \<Rightarrow> point \<Rightarrow> scored_point" where
  "to_scored E space q p =
     \<lparr>sp_id = pid p, sp_score = the (score_in E space q p), sp_payload = payload p\<rparr>"

definition search :: "env \<Rightarrow> point list \<Rightarrow> query_request \<Rightarrow> scored_point list" where
  "search E ps r =
     map (to_scored E (qr_using r) (qr_query r))
         (top_k E (qr_using r) (qr_query r) (qr_limit r) (candidates E ps (qr_prefetch r)))"

definition query_points ::
  "env \<Rightarrow> string \<Rightarrow> query_request \<Rightarrow> world \<Rightarrow> (error + scored_point list) \<times> world" where
  "query_points E name r w =
     (let c = QueryPoints name r; w1 = emit (Storage c) w in
      if fault E c then (Inl storage_failure, w1)
      else (case collections w1 name of
              None \<Rightarrow> (Inl (CollectionNotFound name), w1)
            | Some col \<Rightarrow> (Inr (search E (points col) r), w1)))"

section \<open>The index writer (app/services/index.py)\<close>

text \<open>
  The fields of a \<open>QdrantRAGUploader\<close>. The three vector lists are set by \<open>embed_texts\<close>;
  before that they hold nothing, and reading them raises.
\<close>

record uploader =
  file_path :: string
  collection_name :: string
  texts :: "string list"
  chunks :: "chunk list"
  dense_vecs :: "dense_vec list"
  sparse_vecs :: "sparse_vec list"
  colbert_vecs :: "multi_vec list"

definition uploader_init :: "string \<Rightarrow> string \<Rightarrow> uploader" where
  "uploader_init path name =
     \<lparr>file_path = path, collection_name = name, texts = [], chunks = [],
      dense_vecs = [], sparse_vecs = [], colbert_vecs = []\<rparr>"

text \<open>\<open>d[k]\<close> on a dict and \<open>xs[j]\<close> on a list, with their exceptions.\<close>

definition getitem :: "(string \<times> 'v) list \<Rightarrow> string \<Rightarrow> error + 'v" where
  "getitem d k = (case map_of d k of None \<Rightarrow> Inl (KeyError k) | Some v \<Rightarrow> Inr v)"

definition nth_or_raise :: "'a list \<Rightarrow> nat \<Rightarrow> error + 'a" where
  "nth_or_raise xs j = (if j < length xs then Inr (xs ! j) else Inl IndexError)"

text \<open>A comprehension whose element expression may raise: the first exception ends it.\<close>

fun map_raise :: "('a \<Rightarrow> error + 'b) \<Rightarrow> 'a list \<Rightarrow> error + 'b list" where
  "map_raise f [] = Inr []"
| "map_raise f (x # xs) =
     (case f x of
        Inl e \<Rightarrow> Inl e
      | Inr y \<Rightarrow> (case map_raise f xs of Inl e \<Rightarrow> Inl e | Inr ys \<Rightarrow> Inr (y # ys)))"

definition load_chunks :: "env \<Rightarrow> uploader \<Rightarrow> world \<Rightarrow> error option \<times> uploader \<times> world" where
  "load_chunks E u w =
     (case read_json E (file_path u) of
        Inl e \<Rightarrow> (Some e, u, w)
      | Inr cs \<Rightarrow>
          (let u1 = u\<lparr>chunks := cs\<rparr> in
           case map_raise (\<lambda>chunk. getitem chunk ''content'') cs of
             Inl e \<Rightarrow> (Some e, u1, w)
           | Inr ts \<Rightarrow>
               (None, u1\<lparr>texts := ts\<rparr>,
                print (''[INFO] '' @ str_nat (length cs) @ '' chunks loaded from file'') w)))"

definition rag_schema :: schema where
  "rag_schema =
     \<lparr>vectors_config =
        [(''all-MiniLM-L6-v2'',
          \<lparr>vp_size = 384, vp_distance = COSINE, multivector_config = None, hnsw_m = None\<rparr>),
         (''colbertv2.0'',
          \<lparr>vp_size = 128, vp_distance = COSINE, multivector_config = Some MAX_SIM,
           hnsw_m = Some 0\<rparr>)],
      sparse_vectors_config = [(''bm25'', IDF)]\<rparr>"

definition create_rag_collection :: "env \<Rightarrow> uploader \<Rightarrow> world \<Rightarrow> error option \<times> world" where
  "create_rag_collection E u w =
     (case create_collection E (collection_name u) rag_schema w of
        (Inl e, w1) \<Rightarrow> (Some e, w1)
      | (Inr _, w1) \<Rightarrow>
          (None, print (''[INFO] Collection '' @ quoted (collection_name u)
                        @ '' created successfully.'') w1))"

definition setup_collection :: "env \<Rightarrow> uploader \<Rightarrow> world \<Rightarrow> error option \<times> world" where
  "setup_collection E u w =
     (case collection_exists E (collection_name u) w of
        (Inl e, w1) \<Rightarrow> (Some e, w1)
      | (Inr True, w1) \<Rightarrow>
          (case delete_collection E (collection_name u) w1 of
             (Inl e, w2) \<Rightarrow> (Some e, w2)
           | (Inr _, w2) \<Rightarrow>
               create_rag_collection E u
                 (print (''[INFO] Collection '' @ quoted (collection_name u)
                         @ '' deleted successfully.'') w2))
      | (Inr False, w1) \<Rightarrow> create_rag_collection E u w1)"

text \<open>
  \<open>list(model.embed(doc for doc in self.texts))\<close>: one invocation of the model on all texts;
  it raises when the model raises on one of them.
\<close>

definition embed_all ::
  "model_kind \<Rightarrow> (string \<Rightarrow> error + 'v) \<Rightarrow> string list \<Rightarrow> world \<Rightarrow> (error + 'v list) \<times> world" where
  "embed_all kind f ts w = (map_raise f ts, emit (Embed kind ts) w)"

definition embed_texts :: "env \<Rightarrow> uploader \<Rightarrow> world \<Rightarrow> error option \<times> uploader \<times> world" where
  "embed_texts E u w =
     (let w0 = print ''[INFO] Generating embeddings...'' w in
      case embed_all DenseModel (dense_embed E) (texts u) w0 of
        (Inl e, w1) \<Rightarrow> (Some e, u, w1)
      | (Inr ds, w1) \<Rightarrow>
          (let u1 = u\<lparr>dense_vecs := ds\<rparr> in
           case embed_all Bm25Model (bm25_embed E) (texts u) w1 of
             (Inl e, w2) \<Rightarrow> (Some e, u1, w2)
           | (Inr ss, w2) \<Rightarrow>
               (let u2 = u1\<lparr>sparse_vecs := ss\<rparr> in
                case embed_all ColbertModel (colbert_embed E) (texts u) w2 of
                  (Inl e, w3) \<Rightarrow> (Some e, u2, w3)
                | (Inr cs, w3) \<Rightarrow> (None, u2\<lparr>colbert_vecs := cs\<rparr>, w3))))"

text \<open>
  The \<open>PointStruct\<close> the loop builds: an id, the chunk's content as payload, and the three
  vectors under their names. \<open>build_point\<close> builds it for chunk \<open>j\<close>, with a fresh id.
\<close>

definition make_point :: "string \<Rightarrow> string \<Rightarrow> dense_vec \<Rightarrow> sparse_vec \<Rightarrow> multi_vec \<Rightarrow> point" where
  "make_point i content d s c =
     \<lparr>pid = i, payload = [(''text'', content)],
      vector = [(''all-MiniLM-L6-v2'', DenseV d), (''bm25'', SparseV s),
                (''colbertv2.0'', MultiV c)]\<rparr>"

definition build_point :: "env \<Rightarrow> uploader \<Rightarrow> nat \<Rightarrow> error + point" where
  "build_point E u j =
     (case nth_or_raise (chunks u) j of
        Inl e \<Rightarrow> Inl e
      | Inr chunk \<Rightarrow>
     (case getitem chunk ''content'' of
        Inl e \<Rightarrow> Inl e
      | Inr content \<Rightarrow>
     (case nth_or_raise (dense_vecs u) j of
        Inl e \<Rightarrow> Inl e
      | Inr d \<Rightarrow>
     (case nth_or_raise (sparse_vecs u) j of
        Inl e \<Rightarrow> Inl e
      | Inr s \<Rightarrow>
     (case nth_or_raise (colbert_vecs u) j of
        Inl e \<Rightarrow> Inl e
      | Inr c \<Rightarrow>
          Inr (make_point (uuid4 E j) content d s c))))))"

definition build_batch :: "env \<Rightarrow> uploader \<Rightarrow> nat \<Rightarrow> nat \<Rightarrow> error + point list" where
  "build_batch E u i batch_size =
     map_raise (build_point E u) [i ..< min (i + batch_size) (length (chunks u))]"

text \<open>The loop over the batch offsets \<open>range(0, len(self.chunks), batch_size)\<close>.\<close>

fun insert_batches :: "env \<Rightarrow> uploader \<Rightarrow> nat \<Rightarrow> nat list \<Rightarrow> world \<Rightarrow> error option \<times> world" where
  "insert_batches E u batch_size [] w = (None, w)"
| "insert_batches E u batch_size (i # offsets) w =
     (case build_batch E u i batch_size of
        Inl e \<Rightarrow> (Some e, w)
      | Inr batch_points \<Rightarrow>
          (case upsert E (collection_name u) batch_points w of
             (Inl e, w1) \<Rightarrow> (Some e, w1)
           | (Inr _, w1) \<Rightarrow> insert_batches E u batch_size offsets w1))"

definition insert_into_qdrant :: "env \<Rightarrow> uploader \<Rightarrow> nat \<Rightarrow> world \<Rightarrow> error option \<times> world" where
  "insert_into_qdrant E u batch_size w =
     (let w0 = print (''[INFO] Inserting '' @ str_nat (length (chunks u))
                      @ '' points into Qdrant in batches of '' @ str_nat batch_size @ ''...'') w in
      if batch_size = 0 then (Some (ValueError ''range() arg 3 must not be zero''), w0)
      else
        (case insert_batches E u batch_size (py_range 0 (length (chunks u)) batch_size) w0 of
           (Some e, w1) \<Rightarrow> (Some e, w1)
         | (None, w1) \<Rightarrow>
             (None, print ''[SUCCESS] All data inserted into Qdrant successfully.'' w1)))"

text \<open>The body of the \<open>try\<close> block of \<open>run\<close>, and \<open>run\<close> with its handler.\<close>

definition run_body :: "env \<Rightarrow> uploader \<Rightarrow> world \<Rightarrow> error option \<times> uploader \<times> world" where
  "run_body E u w =
     (case load_chunks E u w of
        (Some e, u1, w1) \<Rightarrow> (Some e, u1, w1)
      | (None, u1, w1) \<Rightarrow>
     (case setup_collection E u1 w1 of
        (Some e, w2) \<Rightarrow> (Some e, u1, w2)
      | (None, w2) \<Rightarrow>
     (case embed_texts E u1 w2 of
        (Some e, u3, w3) \<Rightarrow> (Some e, u3, w3)
      | (None, u3, w3) \<Rightarrow>
     (case insert_into_qdrant E u3 10 w3 of
        (e, w4) \<Rightarrow> (e, u3, w4)))))"

definition run :: "env \<Rightarrow> uploader \<Rightarrow> world \<Rightarrow> bool \<times> uploader \<times> world" where
  "run E u w =
     (case run_body E u w of
        (Some e, u1, w1) \<Rightarrow> (False, u1, print (''[ERROR] '' @ str_error e) w1)
      | (None, u1, w1) \<Rightarrow> (True, u1, w1))"

section \<open>The retriever (Server/app/services/qdrant_retriever.py)\<close>

record retriever =
  persistence_path :: string
  r_collection_name :: string

definition check_collection :: "env \<Rightarrow> retriever \<Rightarrow> world \<Rightarrow> error option \<times> world" where
  "check_collection E r w =
     (case collection_exists E (r_collection_name r) w of
        (Inl e, w1) \<Rightarrow> (Some e, w1)
      | (Inr False, w1) \<Rightarrow>
          (None, print (''[INFO] Collection '' @ quoted (r_collection_name r)
                        @ '' does not exist. Please create it first.'') w1)
      | (Inr True, w1) \<Rightarrow>
          (case count E (r_collection_name r) w1 of
             (Inl e, w2) \<Rightarrow> (Some e, w2)
           | (Inr n, w2) \<Rightarrow>
               (None, print (''[INFO] Collection '' @ quoted (r_collection_name r)
                             @ '' exists with count='' @ str_nat n @ ''.'') w2)))"

definition retriever_init :: "env \<Rightarrow> string \<Rightarrow> string \<Rightarrow> world \<Rightarrow> (error + retriever) \<times> world" where
  "retriever_init E path name w =
     (let r = \<lparr>persistence_path = path, r_collection_name = name\<rparr> in
      case check_collection E r w of
        (Some e, w1) \<Rightarrow> (Inl e, w1)
      | (None, w1) \<Rightarrow> (Inr r, w1))"

text \<open>\<open>next(model.query_embed(query))\<close>: one invocation of a model on the query.\<close>

definition query_embed ::
  "model_kind \<Rightarrow> (string \<Rightarrow> error + 'v) \<Rightarrow> string \<Rightarrow> world \<Rightarrow> (error + 'v) \<times> world" where
  "query_embed kind f query w = (f query, emit (QueryEmbed kind query) w)"

text \<open>
  The request both retrieval paths send: the late-interaction query over two prefetches,
  dense and sparse, with the path's prefetch limit and result limit.
\<close>

definition hybrid_request :: "dense_vec \<Rightarrow> sparse_vec \<Rightarrow> multi_vec \<Rightarrow> nat \<Rightarrow> nat \<Rightarrow> query_request" where
  "hybrid_request dense_vector sparse_vector late_vector prefetch_limit limit =
     \<lparr>qr_query = MultiV late_vector, qr_using = ''colbertv2.0'',
      qr_prefetch =
        [\<lparr>pf_query = DenseV dense_vector, pf_using = ''all-MiniLM-L6-v2'',
          pf_limit = prefetch_limit\<rparr>,
         \<lparr>pf_query = SparseV sparse_vector, pf_using = ''bm25'', pf_limit = prefetch_limit\<rparr>],
      qr_limit = limit\<rparr>"

definition retrieve ::
  "env \<Rightarrow> retriever \<Rightarrow> string \<Rightarrow> nat \<Rightarrow> world \<Rightarrow> (error + payload list) \<times> world" where
  "retrieve E r query limit w =
     (case query_embed DenseModel (dense_query_embed E) query w of
        (Inl e, w1) \<Rightarrow> (Inl e, w1)
      | (Inr dense_query_vector, w1) \<Rightarrow>
     (case query_embed Bm25Model (bm25_query_embed E) query w1 of
        (Inl e, w2) \<Rightarrow> (Inl e, w2)
      | (Inr sparse_query_vector, w2) \<Rightarrow>
     (case query_embed ColbertModel (colbert_query_embed E) query w2 of
        (Inl e, w3) \<Rightarrow> (Inl e, w3)
      | (Inr late_query_vector, w3) \<Rightarrow>
     (case query_points E (r_collection_name r)
             (hybrid_request dense_query_vector sparse_query_vector late_query_vector 20 limit) w3 of
        (Inl e, w4) \<Rightarrow> (Inl e, w4)
      | (Inr results, w4) \<Rightarrow> (Inr (map sp_payload results), w4)))))"

definition format_payload :: "payload \<Rightarrow> string" where
  "format_payload p = join nl (map (\<lambda>(key, value). key @ '': '' @ value) p)"

definition get_context_string ::
  "env \<Rightarrow> retriever \<Rightarrow> string \<Rightarrow> nat \<Rightarrow> world \<Rightarrow> (error + string) \<times> world" where
  "get_context_string E r query limit w =
     (case retrieve E r query limit w of
        (Inl e, w1) \<Rightarrow> (Inl e, w1)
      | (Inr contexts, w1) \<Rightarrow>
          (if contexts = [] then (Inr ''No relevant information found.'', w1)
           else (Inr (join nlnl
                   (map (\<lambda>(i, doc). ''Document '' @ str_nat (i + 1) @ '':'' @ nl @ format_payload doc)
                        (enumerate_from 0 contexts))), w1)))"

section \<open>The standalone search script (search.py)\<close>

text \<open>One turn of the script's loop, for a query other than \<open>exit\<close>.\<close>

fun print_points :: "env \<Rightarrow> scored_point list \<Rightarrow> world \<Rightarrow> world" where
  "print_points E [] w = w"
| "print_points E (p # ps) w =
     print_points E ps (print (replicate 40 CHR ''-'') (print (str_payload E (sp_payload p)) w))"

definition search_turn :: "env \<Rightarrow> string \<Rightarrow> world \<Rightarrow> error option \<times> world" where
  "search_turn E query w =
     (case query_embed DenseModel (dense_query_embed E) query w of
        (Inl e, w1) \<Rightarrow> (Some e, w1)
      | (Inr dense_query_vector, w1) \<Rightarrow>
     (case query_embed Bm25Model (bm25_query_embed E) query w1 of
        (Inl e, w2) \<Rightarrow> (Some e, w2)
      | (Inr sparse_query_vector, w2) \<Rightarrow>
     (case query_embed ColbertModel (colbert_query_embed E) query w2 of
        (Inl e, w3) \<Rightarrow> (Some e, w3)
      | (Inr late_query_vector, w3) \<Rightarrow>
     (case query_points E ''myRag''
             (hybrid_request dense_query_vector sparse_query_vector late_query_vector 20 10) w3 of
        (Inl e, w4) \<Rightarrow> (Some e, w4)
      | (Inr results, w4) \<Rightarrow>
          (None, print_points E results
                   (print (str_nat (length results)) (print (nl @ ''[RESULTS]'') w4)))))))"

section \<open>The chat pipeline (app/services/generation.py)\<close>

record chatbot =
  bot_collection_name :: string

definition chatbot_init :: "env \<Rightarrow> string \<Rightarrow> world \<Rightarrow> (error + chatbot) \<times> world" where
  "chatbot_init E name w =
     (case collection_exists E name w of
        (Inl e, w1) \<Rightarrow> (Inl e, w1)
      | (Inr False, w1) \<Rightarrow>
          (Inl (PyException (''Collection '' @ quoted name
                             @ '' does not exist. Please create it first.'')), w1)
      | (Inr True, w1) \<Rightarrow>
          (case count E name w1 of
             (Inl e, w2) \<Rightarrow> (Inl e, w2)
           | (Inr n, w2) \<Rightarrow>
               (Inr \<lparr>bot_collection_name = name\<rparr>,
                print (''[INFO] Collection '' @ quoted name @ '' exists with '' @ str_nat n
                       @ '' documents.'') w2)))"

definition embed_query ::
  "env \<Rightarrow> string \<Rightarrow> world \<Rightarrow> (error + dense_vec \<times> sparse_vec \<times> multi_vec) \<times> world" where
  "embed_query E query w =
     (case query_embed DenseModel (dense_query_embed E) query w of
        (Inl e, w1) \<Rightarrow> (Inl e, w1)
      | (Inr dense_vector, w1) \<Rightarrow>
     (case query_embed Bm25Model (bm25_query_embed E) query w1 of
        (Inl e, w2) \<Rightarrow> (Inl e, w2)
      | (Inr sparse_vector, w2) \<Rightarrow>
     (case query_embed ColbertModel (colbert_query_embed E) query w2 of
        (Inl e, w3) \<Rightarrow> (Inl e, w3)
      | (Inr late_vector, w3) \<Rightarrow> (Inr (dense_vector, sparse_vector, late_vector), w3))))"

text \<open>\<open>point.payload.get("text", str(point.payload))\<close>.\<close>

definition payload_text :: "env \<Rightarrow> payload \<Rightarrow> string" where
  "payload_text E p = (case map_of p ''text'' of Some t \<Rightarrow> t | None \<Rightarrow> str_payload E p)"

definition retrieve_context ::
  "env \<Rightarrow> chatbot \<Rightarrow> dense_vec \<Rightarrow> sparse_vec \<Rightarrow> multi_vec \<Rightarrow> world \<Rightarrow> (error + string) \<times> world" where
  "retrieve_context E rag_bot dense_vector sparse_vector late_vector w =
     (case query_points E (bot_collection_name rag_bot)
             (hybrid_request dense_vector sparse_vector late_vector 10 5) w of
        (Inl e, w1) \<Rightarrow> (Inl e, w1)
      | (Inr results, w1) \<Rightarrow>
          (Inr (join nlnl (map (\<lambda>point. payload_text E (sp_payload point)) results)), w1))"

text \<open>
  \<open>str.strip()\<close>: the characters Python counts as white space, as far as they are one byte.
\<close>

definition is_space :: "char \<Rightarrow> bool" where
  "is_space c = (c \<in> set [CHR 0x20, CHR 0x09, CHR 0x0A, CHR 0x0B, CHR 0x0C, CHR 0x0D,
                            CHR 0x1C, CHR 0x1D, CHR 0x1E, CHR 0x1F])"

definition strip :: "string \<Rightarrow> string" where
  "strip s = rev (dropWhile is_space (rev (dropWhile is_space s)))"

text \<open>
  The POST to the generation server and the reading of its reply:
  \<open>response.json().get("response", "").strip()\<close>.
\<close>

definition post_generate :: "env \<Rightarrow> string \<Rightarrow> string \<Rightarrow> world \<Rightarrow> (error + string) \<times> world" where
  "post_generate E model prompt w =
     (let w1 = emit (HttpPost model prompt) w in
      case ollama E model prompt of
        Inl e \<Rightarrow> (Inl e, w1)
      | Inr None \<Rightarrow> (Inr (strip []), w1)
      | Inr (Some response) \<Rightarrow> (Inr (strip response), w1))"

definition generate_answer_with_ollama ::
  "env \<Rightarrow> string \<Rightarrow> string \<Rightarrow> string \<Rightarrow> world \<Rightarrow> (error + string) \<times> world" where
  "generate_answer_with_ollama E query context model w =
     post_generate E model
       (''Answer the question based on the following context:'' @ nlnl @ context @ nlnl
        @ ''Question: '' @ query @ nl @ ''Answer:'') w"

definition answer_query :: "env \<Rightarrow> chatbot \<Rightarrow> string \<Rightarrow> world \<Rightarrow> (error + string) \<times> world" where
  "answer_query E rag_bot query w =
     (case embed_query E query w of
        (Inl e, w1) \<Rightarrow> (Inl e, w1)
      | (Inr (dense_vector, sparse_vector, late_vector), w1) \<Rightarrow>
     (case retrieve_context E rag_bot dense_vector sparse_vector late_vector w1 of
        (Inl e, w2) \<Rightarrow> (Inl e, w2)
      | (Inr context, w2) \<Rightarrow> generate_answer_with_ollama E query context ''gemma3:4b'' w2))"

text \<open>
  The loop of \<open>summarize_full_document\<close> over \<open>all_chunks\<close>, with the state
  \<open>(document_text, total_tokens)\<close>: a chunk that fits is appended with a blank line, the
  first chunk that does not fit ends the loop.
\<close>

fun document_loop :: "env \<Rightarrow> int \<Rightarrow> string list \<Rightarrow> string \<times> int \<Rightarrow> string \<times> int" where
  "document_loop E max_tokens [] (document_text, total_tokens) = (document_text, total_tokens)"
| "document_loop E max_tokens (chunk # rest) (document_text, total_tokens) =
     (let tokens = int (length (tokenizer_encode E chunk)) in
      if total_tokens + tokens \<le> max_tokens
      then document_loop E max_tokens rest (document_text @ chunk @ nlnl, total_tokens + tokens)
      else (document_text, total_tokens))"

definition summarize_prompt :: "string \<Rightarrow> string" where
  "summarize_prompt document_text =
     ''Summarize the following document:'' @ nlnl @ document_text @ nlnl @ ''Summary:''"

definition summarize_full_document ::
  "env \<Rightarrow> chatbot \<Rightarrow> string \<Rightarrow> int \<Rightarrow> world \<Rightarrow> (error + string) \<times> world" where
  "summarize_full_document E rag_bot model max_tokens w =
     (case scroll E (bot_collection_name rag_bot) 1000 w of
        (Inl e, w1) \<Rightarrow> (Inl e, w1)
      | (Inr results, w1) \<Rightarrow>
          (let all_chunks = map (\<lambda>point. payload_text E (payload point)) (fst results);
               document_text = fst (document_loop E max_tokens all_chunks ([], 0))
           in post_generate E model (summarize_prompt document_text) w1))"

section \<open>Notions used to state the properties\<close>

text \<open>The token count of a chunk, as the loop measures it, and of a list of chunks.\<close>

definition tokens :: "env \<Rightarrow> string \<Rightarrow> int" where
  "tokens E chunk = int (length (tokenizer_encode E chunk))"

definition total_tokens :: "env \<Rightarrow> string list \<Rightarrow> int" where
  "total_tokens E cs = sum_list (map (tokens E) cs)"

text \<open>The lines a list of chunks contributes to the document text.\<close>

definition chunks_text :: "string list \<Rightarrow> string" where
  "chunks_text cs = concat (map (\<lambda>c. c @ nlnl) cs)"

text \<open>The number of points a collection of a world holds (0 when there is no such collection).\<close>

definition point_count :: "world \<Rightarrow> string \<Rightarrow> nat" where
  "point_count w name = (case collections w name of None \<Rightarrow> 0 | Some col \<Rightarrow> length (points col))"

text \<open>
  The point the index writer builds for chunk \<open>j\<close> of a run whose chunk contents are
  \<open>ts\<close>, when the three embedders succeed on the content.
\<close>

definition indexed_point :: "env \<Rightarrow> string list \<Rightarrow> nat \<Rightarrow> point" where
  "indexed_point E ts j =
     make_point (uuid4 E j) (ts ! j) (projr (dense_embed E (ts ! j)))
       (projr (bm25_embed E (ts ! j))) (projr (colbert_embed E (ts ! j)))"

section \<open>A small concrete environment\<close>

text \<open>
  An environment to run the definitions on: two chunk files, embedders that look at the
  length and the characters of a text (the sparse vector of the empty text is empty),
  a storage engine that never fails, and a tokenizer with one token per character.
\<close>

definition demo_similarity :: "string \<Rightarrow> vec \<Rightarrow> vec \<Rightarrow> real" where
  "demo_similarity space q v =
     (case v of DenseV d \<Rightarrow> sum_list d
              | SparseV s \<Rightarrow> sum_list (sv_values s)
              | MultiV m \<Rightarrow> sum_list (concat m))"

definition demo_sparse :: "string \<Rightarrow> sparse_vec" where
  "demo_sparse t = \<lparr>sv_indices = map of_char t, sv_values = map (\<lambda>c. 1) t\<rparr>"

definition demo_env :: env where
  "demo_env =
     \<lparr>read_json = (\<lambda>path.
        if path = ''two.json'' then Inr [[(''content'', ''ab'')], [(''content'', ''c'')]]
        else if path = ''one.json'' then Inr [[(''content'', ''ab'')]]
        else if path = ''blank.json'' then Inr [[(''content'', [])]]
        else if path = ''twelve.json'' then Inr (replicate 12 [(''content'', ''ab'')])
        else Inl (FileError ''No such file or directory'')),
      dense_embed = (\<lambda>t. Inr [real (length t), 1]),
      bm25_embed = (\<lambda>t. Inr (demo_sparse t)),
      colbert_embed = (\<lambda>t. Inr [[real (length t)]]),
      dense_query_embed = (\<lambda>t. Inr [real (length t), 1]),
      bm25_query_embed = (\<lambda>t. Inr (demo_sparse t)),
      colbert_query_embed = (\<lambda>t. Inr [[real (length t)]]),
      uuid4 = (\<lambda>n. replicate (Suc n) CHR ''u''),
      fault = (\<lambda>c. False),
      similarity = demo_similarity,
      tokenizer_encode = (\<lambda>t. map of_char t),
      str_payload = (\<lambda>p. ''{}''),
      ollama = (\<lambda>model prompt. Inr (Some '' ok ''))\<rparr>"

text \<open>The same environment with a storage engine that refuses every upsert of two points.\<close>

definition refuses_pairs :: "storage_call \<Rightarrow> bool" where
  "refuses_pairs c = (case c of Upsert name ps \<Rightarrow> length ps = 2 | _ \<Rightarrow> False)"

definition faulty_env :: env where
  "faulty_env = demo_env\<lparr>fault := refuses_pairs\<rparr>"

text \<open>
  Two more: a storage engine that fails when asked whether a collection exists, and a dense
  model that is unavailable.
\<close>

definition refuses_exists :: "storage_call \<Rightarrow> bool" where
  "refuses_exists c = (case c of CollectionExists name \<Rightarrow> True | _ \<Rightarrow> False)"

definition setup_fault_env :: env where
  "setup_fault_env = demo_env\<lparr>fault := refuses_exists\<rparr>"

definition embed_fault_env :: env where
  "embed_fault_env = demo_env\<lparr>dense_embed := (\<lambda>t. Inl (EmbeddingFailure ''model unavailable''))\<rparr>"

definition empty_world :: world where
  "empty_world = \<lparr>collections = Map.empty, trace = []\<rparr>"

text \<open>A world whose collection \<open>myRag\<close> holds two points, and one with 1001 points.\<close>

definition demo_points :: "point list" where
  "demo_points =
     [make_point ''u'' ''ab'' [2, 1] (demo_sparse ''ab'') [[2]],
      make_point ''uu'' ''c'' [1, 1] (demo_sparse ''c'') [[5]]]"

definition demo_world :: world where
  "demo_world =
     \<lparr>collections = [''myRag'' \<mapsto> \<lparr>config = rag_schema, points = demo_points\<rparr>], trace = []\<rparr>"

definition many_points :: "point list" where
  "many_points =
     replicate 1000 (make_point ''u'' ''a'' [1, 1] (demo_sparse ''a'') [[1]])
     @ [make_point ''uu'' ''LAST'' [4, 1] (demo_sparse ''LAST'') [[4]]]"

definition large_world :: world where
  "large_world =
     \<lparr>collections = [''myRag'' \<mapsto> \<lparr>config = rag_schema, points = many_points\<rparr>], trace = []\<rparr>"

text \<open>A retriever and a chat bot on the collection \<open>myRag\<close>.\<close>

definition demo_retriever :: retriever where
  "demo_retriever = \<lparr>persistence_path = ''./Qdrant'', r_collection_name = ''myRag''\<rparr>"

definition demo_bot :: chatbot where
  "demo_bot = \<lparr>bot_collection_name = ''myRag''\<rparr>"

section \<open>Evaluating the definitions\<close>

lemmas demo_defs = demo_env_def demo_world_def demo_points_def demo_sparse_def demo_similarity_def
  make_point_def empty_world_def demo_retriever_def demo_bot_def

lemmas engine_defs = query_points_def search_def candidates_def run_prefetch_def top_k_def
  score_in_def to_scored_def hybrid_request_def emit_def Let_def

lemma retrieve_demo:
  "retrieve demo_env demo_retriever ''q'' 10 demo_world
     = (Inr [[(''text'', ''c'')], [(''text'', ''ab'')]],
        demo_world\<lparr>trace :=
          [QueryEmbed DenseModel ''q'', QueryEmbed Bm25Model ''q'', QueryEmbed ColbertModel ''q'',
           Storage (QueryPoints ''myRag'' (hybrid_request [1, 1] (demo_sparse ''q'') [[1]] 20 10))]\<rparr>)"
  by (simp add: retrieve_def query_embed_def demo_defs engine_defs)

lemma retrieve_context_demo:
  "retrieve_context demo_env demo_bot [1, 1] (demo_sparse ''q'') [[1]] demo_world
     = (Inr (''c'' @ nlnl @ ''ab''),
        demo_world\<lparr>trace :=
          [Storage (QueryPoints ''myRag'' (hybrid_request [1, 1] (demo_sparse ''q'') [[1]] 10 5))]\<rparr>)"
  by (simp add: retrieve_context_def payload_text_def demo_defs engine_defs)

section \<open>Collection setup\<close>

lemma setup_collection_ok:
  assumes "\<not> fault E (CollectionExists (collection_name u))"
    and "\<not> fault E (DeleteCollection (collection_name u))"
    and "\<not> fault E (CreateCollection (collection_name u) rag_schema)"
  shows "\<exists>w'. setup_collection E u w = (None, w')
           \<and> collections w' = (collections w)(collection_name u \<mapsto> \<lparr>config = rag_schema, points = []\<rparr>)"
  using assms
  by (cases "collections w (collection_name u)")
     (simp_all add: setup_collection_def create_rag_collection_def collection_exists_def
        delete_collection_def create_collection_def emit_def print_def Let_def)

text \<open>
  C7. Setting the collection up twice gives the same result as setting it up once: when the
  storage engine does not fail, both calls succeed, after the first call the collection
  holds no point and has the schema of the three vector spaces (dense cosine 384, sparse
  with the IDF modifier, late interaction cosine 128 with the max-sim comparator), and the
  second call leaves the collections exactly as the first left them.
\<close>

theorem setup_collection_idempotent:
  assumes "\<forall>c. \<not> fault E c"
  shows "\<exists>w1 w2. setup_collection E u w = (None, w1) \<and> setup_collection E u w1 = (None, w2)
           \<and> collections w1 (collection_name u) = Some \<lparr>config = rag_schema, points = []\<rparr>
           \<and> collections w2 = collections w1
           \<and> vectors_config rag_schema =
               [(''all-MiniLM-L6-v2'',
                 \<lparr>vp_size = 384, vp_distance = COSINE, multivector_config = None, hnsw_m = None\<rparr>),
                (''colbertv2.0'',
                 \<lparr>vp_size = 128, vp_distance = COSINE, multivector_config = Some MAX_SIM,
                  hnsw_m = Some 0\<rparr>)]
           \<and> sparse_vectors_config rag_schema = [(''bm25'', IDF)]"
proof -
  from assms obtain w1 where w1: "setup_collection E u w = (None, w1)"
    and c1: "collections w1 = (collections w)(collection_name u \<mapsto> \<lparr>config = rag_schema, points = []\<rparr>)"
    using setup_collection_ok [of E u w] by auto
  from assms obtain w2 where w2: "setup_collection E u w1 = (None, w2)"
    and c2: "collections w2 = (collections w1)(collection_name u \<mapsto> \<lparr>config = rag_schema, points = []\<rparr>)"
    using setup_collection_ok [of E u w1] by auto
  from c1 c2 have "collections w2 = collections w1" by simp
  with w1 w2 c1 show ?thesis by (simp add: rag_schema_def)
qed

theorem setup_collection_idempotent_witness:
  "(\<forall>c. \<not> fault demo_env c)
   \<and> (\<exists>w1 w2. setup_collection demo_env (uploader_init ''two.json'' ''myRag'') demo_world = (None, w1)
         \<and> setup_collection demo_env (uploader_init ''two.json'' ''myRag'') w1 = (None, w2)
         \<and> collections w1 ''myRag'' = Some \<lparr>config = rag_schema, points = []\<rparr>
         \<and> collections w2 = collections w1)"
proof -
  have h: "\<forall>c. \<not> fault demo_env c" by (simp add: demo_env_def)
  have name: "collection_name (uploader_init ''two.json'' ''myRag'') = ''myRag''"
    by (simp add: uploader_init_def)
  from setup_collection_idempotent [OF h, of "uploader_init ''two.json'' ''myRag''" demo_world]
  obtain w1 w2
    where a: "setup_collection demo_env (uploader_init ''two.json'' ''myRag'') demo_world = (None, w1)"
      and b: "setup_collection demo_env (uploader_init ''two.json'' ''myRag'') w1 = (None, w2)"
      and c: "collections w1 (collection_name (uploader_init ''two.json'' ''myRag''))
                = Some \<lparr>config = rag_schema, points = []\<rparr>"
      and d: "collections w2 = collections w1"
    by blast
  from c name have "collections w1 ''myRag'' = Some \<lparr>config = rag_schema, points = []\<rparr>"
    by simp
  with h a b d show ?thesis by blast
qed

section \<open>The context string\<close>

lemma enumerate_from_zip: "enumerate_from i xs = zip [i ..< i + length xs] xs"
proof (induction xs arbitrary: i)
  case Nil
  then show ?case by simp
next
  case (Cons x xs)
  have "[i ..< i + length (x # xs)] = i # [Suc i ..< Suc i + length xs]"
    using upt_conv_Cons [of i "i + length (x # xs)"] by (simp del: upt_Suc)
  with Cons [of "Suc i"] show ?case by (simp del: upt_Suc)
qed

lemma map_enumerate_from:
  "map (\<lambda>(i, x). g i x) (enumerate_from 0 xs) = map (\<lambda>i. g i (xs ! i)) [0 ..< length xs]"
  by (rule nth_equalityI) (simp_all add: enumerate_from_zip)

lemma join_nonempty: "xs \<noteq> [] \<Longrightarrow> hd xs \<noteq> [] \<Longrightarrow> join sep xs \<noteq> []"
  by (induction sep xs rule: join.induct) auto

lemma str_nat_1: "str_nat (Suc 0) = ''1''"
  by code_simp

lemma str_nat_2: "str_nat (Suc (Suc 0)) = ''2''"
  by code_simp

text \<open>
  C10. When \<open>retrieve\<close> returns payloads, \<open>get_context_string\<close> returns the fixed text
  "No relevant information found." for the empty sequence, and otherwise the payloads in their
  rank order, the \<open>i\<close>-th one under the header "Document i:" (counting from 1), separated by
  blank lines. The returned text is never empty.
\<close>

theorem get_context_string_sentinel_or_numbered:
  assumes "retrieve E r query limit w = (Inr contexts, w1)"
  shows "get_context_string E r query limit w =
           (Inr (if contexts = [] then ''No relevant information found.''
                 else join nlnl (map (\<lambda>i. ''Document '' @ str_nat (i + 1) @ '':'' @ nl
                                           @ format_payload (contexts ! i))
                                     [0 ..< length contexts])), w1)
         \<and> (\<forall>s. fst (get_context_string E r query limit w) = Inr s \<longrightarrow> s \<noteq> [])"
proof -
  have first: "get_context_string E r query limit w =
           (Inr (if contexts = [] then ''No relevant information found.''
                 else join nlnl (map (\<lambda>i. ''Document '' @ str_nat (i + 1) @ '':'' @ nl
                                           @ format_payload (contexts ! i))
                                     [0 ..< length contexts])), w1)"
    using assms by (simp add: get_context_string_def map_enumerate_from)
  have "join nlnl (map (\<lambda>i. ''Document '' @ str_nat (i + 1) @ '':'' @ nl
                                           @ format_payload (contexts ! i))
                                     [0 ..< length contexts]) \<noteq> []" if "contexts \<noteq> []"
    using that by (intro join_nonempty) (simp_all add: hd_map upt_conv_Cons)
  with first show ?thesis by auto
qed

theorem get_context_string_sentinel_or_numbered_witness:
  "retrieve demo_env demo_retriever ''q'' 10 demo_world
     = (Inr [[(''text'', ''c'')], [(''text'', ''ab'')]],
        demo_world\<lparr>trace :=
          [QueryEmbed DenseModel ''q'', QueryEmbed Bm25Model ''q'', QueryEmbed ColbertModel ''q'',
           Storage (QueryPoints ''myRag'' (hybrid_request [1, 1] (demo_sparse ''q'') [[1]] 20 10))]\<rparr>)
   \<and> fst (get_context_string demo_env demo_retriever ''q'' 10 demo_world)
       = Inr (''Document 1:'' @ nl @ ''text: c'' @ nlnl @ ''Document 2:'' @ nl @ ''text: ab'')"
proof -
  note t = get_context_string_sentinel_or_numbered [OF retrieve_demo, THEN conjunct1]
  have "fst (get_context_string demo_env demo_retriever ''q'' 10 demo_world)
       = Inr (''Document 1:'' @ nl @ ''text: c'' @ nlnl @ ''Document 2:'' @ nl @ ''text: ab'')"
    by (simp add: t upt_conv_Cons format_payload_def str_nat_1 str_nat_2)
  with retrieve_demo show ?thesis by (intro conjI)
qed

section \<open>The summarization loop\<close>

lemma total_tokens_Cons [simp]: "total_tokens E (c # cs) = tokens E c + total_tokens E cs"
  by (simp add: total_tokens_def)

lemma total_tokens_Nil [simp]: "total_tokens E [] = 0"
  by (simp add: total_tokens_def)

lemma chunks_text_Cons [simp]: "chunks_text (c # cs) = c @ nlnl @ chunks_text cs"
  by (simp add: chunks_text_def)

lemma chunks_text_Nil [simp]: "chunks_text [] = []"
  by (simp add: chunks_text_def)

lemma total_tokens_nonneg: "0 \<le> total_tokens E cs"
  by (induction cs) (simp_all add: tokens_def)

text \<open>
  The loop stops at the first chunk that does not fit: its result is the text of a prefix of
  the chunks, the prefix fits, and the chunk after it (if any) does not.
\<close>

lemma document_loop_prefix:
  "\<exists>n\<le>length cs.
      document_loop E m cs (d, t) = (d @ chunks_text (take n cs), t + total_tokens E (take n cs))
    \<and> (0 < n \<longrightarrow> t + total_tokens E (take n cs) \<le> m)
    \<and> (n < length cs \<longrightarrow> m < t + total_tokens E (take (Suc n) cs))"
proof (induction cs arbitrary: d t)
  case Nil
  then show ?case by simp
next
  case (Cons c cs)
  show ?case
  proof (cases "t + tokens E c \<le> m")
    case True
    from Cons [of "d @ c @ nlnl" "t + tokens E c"] obtain n where n: "n \<le> length cs"
      and run: "document_loop E m cs (d @ c @ nlnl, t + tokens E c)
                  = ((d @ c @ nlnl) @ chunks_text (take n cs), t + tokens E c + total_tokens E (take n cs))"
      and fit: "0 < n \<longrightarrow> t + tokens E c + total_tokens E (take n cs) \<le> m"
      and nxt: "n < length cs \<longrightarrow> m < t + tokens E c + total_tokens E (take (Suc n) cs)"
      by blast
    show ?thesis
      apply (rule exI [of _ "Suc n"])
      using True n run fit nxt by (cases n) (simp_all add: tokens_def Let_def add.assoc)
  next
    case False
    then show ?thesis
      by (intro exI [of _ 0]) (simp add: tokens_def Let_def)
  qed
qed

lemma document_loop_all_fit:
  "t + total_tokens E cs \<le> m \<Longrightarrow>
     document_loop E m cs (d, t) = (d @ chunks_text cs, t + total_tokens E cs)"
proof (induction cs arbitrary: d t)
  case Nil
  then show ?case by simp
next
  case (Cons c cs)
  have "0 \<le> total_tokens E cs" by (rule total_tokens_nonneg)
  with Cons.prems have fits: "t + tokens E c \<le> m" by simp
  from Cons.prems have "t + tokens E c + total_tokens E cs \<le> m" by simp
  from Cons.IH [OF this, of "d @ c @ nlnl"] fits show ?case
    by (simp add: tokens_def Let_def add.assoc)
qed

lemma scroll_demo:
  "scroll demo_env (bot_collection_name demo_bot) 1000 demo_world
     = (Inr (demo_points, None), demo_world\<lparr>trace := [Storage (Scroll ''myRag'' 1000)]\<rparr>)"
  by (simp add: scroll_def demo_env_def demo_world_def demo_bot_def demo_points_def emit_def Let_def)

text \<open>
  C8. The document text that \<open>summarize_full_document\<close> sends to the generation server is
  the text of the first \<open>n\<close> chunks of the scrolled page, each whole and followed by a blank
  line, in storage order: these \<open>n\<close> chunks fit within the token budget, the next chunk (if
  there is one) would exceed it, and when the chunks together exceed a non-negative budget
  the prefix is a proper one. No chunk is cut.
\<close>

theorem summarize_keeps_whole_chunk_prefix:
  assumes "scroll E (bot_collection_name rag_bot) 1000 w = (Inr (page, nxt), w1)"
  shows "\<exists>n\<le>length page.
           snd (summarize_full_document E rag_bot model max_tokens w)
             = emit (HttpPost model (summarize_prompt
                 (chunks_text (take n (map (\<lambda>point. payload_text E (payload point)) page))))) w1
         \<and> (0 < n \<longrightarrow> total_tokens E (take n (map (\<lambda>point. payload_text E (payload point)) page)) \<le> max_tokens)
         \<and> (n < length page \<longrightarrow>
              max_tokens < total_tokens E (take (Suc n) (map (\<lambda>point. payload_text E (payload point)) page)))
         \<and> (0 \<le> max_tokens \<longrightarrow>
              max_tokens < total_tokens E (map (\<lambda>point. payload_text E (payload point)) page) \<longrightarrow>
              n < length page)"
proof -
  let ?cs = "map (\<lambda>point. payload_text E (payload point)) page"
  from document_loop_prefix [of ?cs E max_tokens "[]" 0]
  obtain n where n: "n \<le> length ?cs"
    and run: "document_loop E max_tokens ?cs ([], 0) = (chunks_text (take n ?cs), total_tokens E (take n ?cs))"
    and fit: "0 < n \<longrightarrow> total_tokens E (take n ?cs) \<le> max_tokens"
    and nxt: "n < length ?cs \<longrightarrow> max_tokens < total_tokens E (take (Suc n) ?cs)"
    by auto
  have post: "snd (summarize_full_document E rag_bot model max_tokens w)
             = emit (HttpPost model (summarize_prompt (chunks_text (take n ?cs)))) w1"
    using assms run
    by (simp add: summarize_full_document_def post_generate_def Let_def split: sum.splits option.splits)
  have proper: "n < length page" if "0 \<le> max_tokens" "max_tokens < total_tokens E ?cs"
  proof (rule ccontr)
    assume "\<not> n < length page"
    with n have full: "n = length ?cs" by simp
    show False
    proof (cases "n = 0")
      case True
      with full have "?cs = []" by simp
      with that show False by simp
    next
      case False
      with fit full have "total_tokens E ?cs \<le> max_tokens" by simp
      with that show False by simp
    qed
  qed
  from n post fit nxt proper show ?thesis
    by (intro exI [of _ n]) simp
qed

theorem summarize_keeps_whole_chunk_prefix_witness:
  "scroll demo_env (bot_collection_name demo_bot) 1000 demo_world
     = (Inr (demo_points, None), demo_world\<lparr>trace := [Storage (Scroll ''myRag'' 1000)]\<rparr>)
   \<and> (\<exists>n\<le>length demo_points.
           snd (summarize_full_document demo_env demo_bot ''gemma3:4b'' 2 demo_world)
             = emit (HttpPost ''gemma3:4b'' (summarize_prompt
                 (chunks_text (take n (map (\<lambda>point. payload_text demo_env (payload point)) demo_points)))))
                 (demo_world\<lparr>trace := [Storage (Scroll ''myRag'' 1000)]\<rparr>)
         \<and> (0 < n \<longrightarrow> total_tokens demo_env
                (take n (map (\<lambda>point. payload_text demo_env (payload point)) demo_points)) \<le> 2)
         \<and> (n < length demo_points \<longrightarrow>
              2 < total_tokens demo_env
                (take (Suc n) (map (\<lambda>point. payload_text demo_env (payload point)) demo_points)))
         \<and> (0 \<le> (2::int) \<longrightarrow>
              2 < total_tokens demo_env (map (\<lambda>point. payload_text demo_env (payload point)) demo_points) \<longrightarrow>
              n < length demo_points))"
  by (intro conjI) (rule scroll_demo,
      rule summarize_keeps_whole_chunk_prefix [OF scroll_demo, of "''gemma3:4b''" 2])

section \<open>Hybrid retrieval\<close>

lemma top_k_length: "length (top_k E space q k ps) \<le> k"
  by (simp add: top_k_def)

lemma top_k_subset: "set (top_k E space q k ps) \<subseteq> {p \<in> set ps. score_in E space q p \<noteq> None}"
proof -
  have "set (top_k E space q k ps)
          \<subseteq> set (sort_key (\<lambda>p. - the (score_in E space q p))
                   (filter (\<lambda>p. score_in E space q p \<noteq> None) ps))"
    unfolding top_k_def by (rule set_take_subset)
  then show ?thesis by auto
qed

lemma top_k_sorted:
  "sorted_wrt (\<lambda>a b. the (score_in E space q b) \<le> the (score_in E space q a)) (top_k E space q k ps)"
proof -
  let ?f = "\<lambda>p. - the (score_in E space q p)"
  let ?xs = "sort_key ?f (filter (\<lambda>p. score_in E space q p \<noteq> None) ps)"
  have "sorted (map ?f ?xs)" by (rule sorted_sort_key)
  then have "sorted_wrt (\<lambda>a b. ?f a \<le> ?f b) ?xs" by (simp add: sorted_map)
  then have "sorted_wrt (\<lambda>a b. ?f a \<le> ?f b) (take k ?xs)" by (rule sorted_wrt_take)
  then show ?thesis by (simp add: top_k_def)
qed

lemma dedup_by_id_subset: "set (dedup_by_id ps) \<subseteq> set ps"
  by (induction ps rule: dedup_by_id.induct) auto

lemma dedup_by_id_distinct: "distinct (map pid (dedup_by_id ps))"
proof (induction ps rule: dedup_by_id.induct)
  case 1
  then show ?case by simp
next
  case (2 p ps)
  have "set (dedup_by_id (filter (\<lambda>q. pid q \<noteq> pid p) ps)) \<subseteq> {q \<in> set ps. pid q \<noteq> pid p}"
    using dedup_by_id_subset [of "filter (\<lambda>q. pid q \<noteq> pid p) ps"] by auto
  with 2 show ?case by auto
qed

lemma dedup_by_id_ids: "pid ` set (dedup_by_id ps) = pid ` set ps"
proof (induction ps rule: dedup_by_id.induct)
  case 1
  then show ?case by simp
next
  case (2 p ps)
  then show ?case by auto
qed

lemma run_prefetch_subset: "set (run_prefetch E ps pf) \<subseteq> set ps"
  using top_k_subset [of E "pf_using pf" "pf_query pf" "pf_limit pf" ps]
  by (auto simp: run_prefetch_def)

lemma candidates_subset: "set (candidates E ps pfs) \<subseteq> set ps"
proof -
  have "set (concat (map (run_prefetch E ps) pfs)) \<subseteq> set ps"
    using run_prefetch_subset by fastforce
  with dedup_by_id_subset [of "concat (map (run_prefetch E ps) pfs)"] show ?thesis
    by (auto simp: candidates_def)
qed

lemma search_length: "length (search E ps r) \<le> qr_limit r"
  by (simp add: search_def top_k_length)

lemma search_sorted: "sorted_wrt (\<lambda>a b. sp_score b \<le> sp_score a) (search E ps r)"
  using top_k_sorted [of E "qr_using r" "qr_query r" "qr_limit r" "candidates E ps (qr_prefetch r)"]
  by (simp add: search_def sorted_wrt_map to_scored_def)

lemma search_members:
  assumes "sp \<in> set (search E ps r)"
  shows "\<exists>p\<in>set ps. sp_id sp = pid p \<and> sp_payload sp = payload p
           \<and> score_in E (qr_using r) (qr_query r) p = Some (sp_score sp)"
proof -
  from assms obtain p where p: "p \<in> set (top_k E (qr_using r) (qr_query r) (qr_limit r) (candidates E ps (qr_prefetch r)))"
    and sp: "sp = to_scored E (qr_using r) (qr_query r) p"
    by (auto simp: search_def)
  from p top_k_subset have "p \<in> set (candidates E ps (qr_prefetch r))"
    and some: "score_in E (qr_using r) (qr_query r) p \<noteq> None" by fastforce+
  with candidates_subset have "p \<in> set ps" by fastforce
  with sp some show ?thesis by (auto simp: to_scored_def)
qed

lemma query_points_Inr:
  assumes "query_points E name r w = (Inr res, w')"
  shows "\<exists>col. collections w name = Some col \<and> res = search E (points col) r
           \<and> w' = emit (Storage (QueryPoints name r)) w \<and> \<not> fault E (QueryPoints name r)"
  using assms
  by (auto simp: query_points_def Let_def emit_def split: if_splits option.splits)

lemma query_points_ok:
  assumes "\<not> fault E (QueryPoints name r)" and "collections w name = Some col"
  shows "query_points E name r w = (Inr (search E (points col) r), emit (Storage (QueryPoints name r)) w)"
  using assms by (simp add: query_points_def Let_def emit_def)

lemma query_points_trace:
  "trace (snd (query_points E name r w)) = trace w @ [Storage (QueryPoints name r)]"
  by (simp add: query_points_def Let_def emit_def split: option.splits)

lemma query_points_collections:
  "collections (snd (query_points E name r w)) = collections w"
  by (simp add: query_points_def Let_def emit_def split: option.splits)

lemma retrieve_Inr:
  assumes "retrieve E r query k w = (Inr contexts, w')"
  shows "\<exists>d s l res. dense_query_embed E query = Inr d \<and> bm25_query_embed E query = Inr s
           \<and> colbert_query_embed E query = Inr l
           \<and> query_points E (r_collection_name r) (hybrid_request d s l 20 k)
                (emit (QueryEmbed ColbertModel query) (emit (QueryEmbed Bm25Model query)
                   (emit (QueryEmbed DenseModel query) w))) = (Inr res, w')
           \<and> contexts = map sp_payload res"
  using assms
  by (auto simp: retrieve_def query_embed_def split: sum.splits prod.splits)

lemma retrieve_context_Inr:
  assumes "retrieve_context E rag_bot d s l w = (Inr context, w')"
  shows "\<exists>res. query_points E (bot_collection_name rag_bot) (hybrid_request d s l 10 5) w = (Inr res, w')
           \<and> context = join nlnl (map (\<lambda>point. payload_text E (sp_payload point)) res)"
  using assms
  by (auto simp: retrieve_context_def split: sum.splits prod.splits)

text \<open>
  C1. Whenever \<open>retrieve\<close> returns payloads for a query and a limit \<open>k\<close>, they are the
  payloads of at most \<open>k\<close> scored points of the collection, in the order of non-increasing
  score, and the score of each is its late-interaction score against the query's
  late-interaction vector. The chat pipeline's \<open>_retrieve_context\<close> joins the texts of at most
  5 such points in the same order. \<open>retrieve\<close> does return payloads when the three query
  embeddings succeed, the collection exists and the storage call does not fail.
\<close>

theorem retrieve_bounded_and_ordered:
  "(retrieve E r query k w = (Inr contexts, w') \<longrightarrow>
      (\<exists>(results :: scored_point list) l col. colbert_query_embed E query = Inr l
         \<and> collections w (r_collection_name r) = Some col
         \<and> contexts = map sp_payload results
         \<and> length results \<le> k
         \<and> sorted_wrt (\<lambda>a b. sp_score b \<le> sp_score a) results
         \<and> (\<forall>sp\<in>set results. \<exists>p\<in>set (points col). sp_id sp = pid p \<and> sp_payload sp = payload p
               \<and> score_in E ''colbertv2.0'' (MultiV l) p = Some (sp_score sp))))
   \<and> (retrieve_context E rag_bot d s late w = (Inr context, w2) \<longrightarrow>
      (\<exists>(results :: scored_point list) col. collections w (bot_collection_name rag_bot) = Some col
         \<and> context = join nlnl (map (\<lambda>point. payload_text E (sp_payload point)) results)
         \<and> length results \<le> 5
         \<and> sorted_wrt (\<lambda>a b. sp_score b \<le> sp_score a) results
         \<and> (\<forall>sp\<in>set results. \<exists>p\<in>set (points col). sp_id sp = pid p \<and> sp_payload sp = payload p
               \<and> score_in E ''colbertv2.0'' (MultiV late) p = Some (sp_score sp))))
   \<and> (dense_query_embed E query = Inr d \<and> bm25_query_embed E query = Inr s
        \<and> colbert_query_embed E query = Inr late
        \<and> \<not> fault E (QueryPoints (r_collection_name r) (hybrid_request d s late 20 k))
        \<and> collections w (r_collection_name r) \<noteq> None \<longrightarrow>
      (\<exists>results w3. retrieve E r query k w = (Inr results, w3)))"
proof (intro conjI impI)
  assume a: "retrieve E r query k w = (Inr contexts, w')"
  from retrieve_Inr [OF a] obtain d0 s0 l res where l: "colbert_query_embed E query = Inr l"
    and q: "query_points E (r_collection_name r) (hybrid_request d0 s0 l 20 k)
                (emit (QueryEmbed ColbertModel query) (emit (QueryEmbed Bm25Model query)
                   (emit (QueryEmbed DenseModel query) w))) = (Inr res, w')"
    and c: "contexts = map sp_payload res" by blast
  from query_points_Inr [OF q] obtain col where col: "collections w (r_collection_name r) = Some col"
    and res: "res = search E (points col) (hybrid_request d0 s0 l 20 k)"
    by (auto simp: emit_def)
  have len: "length res \<le> k" using search_length [of E "points col" "hybrid_request d0 s0 l 20 k"]
    by (simp add: res hybrid_request_def)
  have srt: "sorted_wrt (\<lambda>a b. sp_score b \<le> sp_score a) res"
    by (simp add: res search_sorted)
  have mem: "\<forall>sp\<in>set res. \<exists>p\<in>set (points col). sp_id sp = pid p \<and> sp_payload sp = payload p
               \<and> score_in E ''colbertv2.0'' (MultiV l) p = Some (sp_score sp)"
    using search_members [of _ E "points col" "hybrid_request d0 s0 l 20 k"]
    by (simp add: res hybrid_request_def)
  show "\<exists>(results :: scored_point list) l col. colbert_query_embed E query = Inr l
         \<and> collections w (r_collection_name r) = Some col
         \<and> contexts = map sp_payload results
         \<and> length results \<le> k
         \<and> sorted_wrt (\<lambda>a b. sp_score b \<le> sp_score a) results
         \<and> (\<forall>sp\<in>set results. \<exists>p\<in>set (points col). sp_id sp = pid p \<and> sp_payload sp = payload p
               \<and> score_in E ''colbertv2.0'' (MultiV l) p = Some (sp_score sp))"
  proof (intro exI conjI)
    show "colbert_query_embed E query = Inr l" by (rule l)
    show "collections w (r_collection_name r) = Some col" by (rule col)
    show "contexts = map sp_payload res" by (rule c)
    show "length res \<le> k" by (rule len)
    show "sorted_wrt (\<lambda>a b. sp_score b \<le> sp_score a) res" by (rule srt)
    show "\<forall>sp\<in>set res. \<exists>p\<in>set (points col). sp_id sp = pid p \<and> sp_payload sp = payload p
               \<and> score_in E ''colbertv2.0'' (MultiV l) p = Some (sp_score sp)" by (rule mem)
  qed
next
  assume a: "retrieve_context E rag_bot d s late w = (Inr context, w2)"
  from retrieve_context_Inr [OF a] obtain res
    where q: "query_points E (bot_collection_name rag_bot) (hybrid_request d s late 10 5) w = (Inr res, w2)"
    and c: "context = join nlnl (map (\<lambda>point. payload_text E (sp_payload point)) res)" by blast
  from query_points_Inr [OF q] obtain col where col: "collections w (bot_collection_name rag_bot) = Some col"
    and res: "res = search E (points col) (hybrid_request d s late 10 5)"
    by auto
  have len: "length res \<le> 5" using search_length [of E "points col" "hybrid_request d s late 10 5"]
    by (simp add: res hybrid_request_def)
  have srt: "sorted_wrt (\<lambda>a b. sp_score b \<le> sp_score a) res"
    by (simp add: res search_sorted)
  have mem: "\<forall>sp\<in>set res. \<exists>p\<in>set (points col). sp_id sp = pid p \<and> sp_payload sp = payload p
               \<and> score_in E ''colbertv2.0'' (MultiV late) p = Some (sp_score sp)"
    using search_members [of _ E "points col" "hybrid_request d s late 10 5"]
    by (simp add: res hybrid_request_def)
  show "\<exists>(results :: scored_point list) col. collections w (bot_collection_name rag_bot) = Some col
         \<and> context = join nlnl (map (\<lambda>point. payload_text E (sp_payload point)) results)
         \<and> length results \<le> 5
         \<and> sorted_wrt (\<lambda>a b. sp_score b \<le> sp_score a) results
         \<and> (\<forall>sp\<in>set results. \<exists>p\<in>set (points col). sp_id sp = pid p \<and> sp_payload sp = payload p
               \<and> score_in E ''colbertv2.0'' (MultiV late) p = Some (sp_score sp))"
  proof (intro exI conjI)
    show "collections w (bot_collection_name rag_bot) = Some col" by (rule col)
    show "context = join nlnl (map (\<lambda>point. payload_text E (sp_payload point)) res)" by (rule c)
    show "length res \<le> 5" by (rule len)
    show "sorted_wrt (\<lambda>a b. sp_score b \<le> sp_score a) res" by (rule srt)
    show "\<forall>sp\<in>set res. \<exists>p\<in>set (points col). sp_id sp = pid p \<and> sp_payload sp = payload p
               \<and> score_in E ''colbertv2.0'' (MultiV late) p = Some (sp_score sp)" by (rule mem)
  qed
next
  assume a: "dense_query_embed E query = Inr d \<and> bm25_query_embed E query = Inr s
        \<and> colbert_query_embed E query = Inr late
        \<and> \<not> fault E (QueryPoints (r_collection_name r) (hybrid_request d s late 20 k))
        \<and> collections w (r_collection_name r) \<noteq> None"
  then obtain col where col: "collections w (r_collection_name r) = Some col" by auto
  from a col show "\<exists>results w3. retrieve E r query k w = (Inr results, w3)"
    by (simp add: retrieve_def query_embed_def query_points_def Let_def emit_def)
qed

theorem retrieve_bounded_and_ordered_witness:
  "retrieve demo_env demo_retriever ''q'' 10 demo_world
     = (Inr [[(''text'', ''c'')], [(''text'', ''ab'')]],
        demo_world\<lparr>trace :=
          [QueryEmbed DenseModel ''q'', QueryEmbed Bm25Model ''q'', QueryEmbed ColbertModel ''q'',
           Storage (QueryPoints ''myRag'' (hybrid_request [1, 1] (demo_sparse ''q'') [[1]] 20 10))]\<rparr>)
   \<and> (\<exists>(results :: scored_point list) l col. colbert_query_embed demo_env ''q'' = Inr l
         \<and> collections demo_world (r_collection_name demo_retriever) = Some col
         \<and> [[(''text'', ''c'')], [(''text'', ''ab'')]] = map sp_payload results
         \<and> length results \<le> 10
         \<and> sorted_wrt (\<lambda>a b. sp_score b \<le> sp_score a) results
         \<and> (\<forall>sp\<in>set results. \<exists>p\<in>set (points col). sp_id sp = pid p \<and> sp_payload sp = payload p
               \<and> score_in demo_env ''colbertv2.0'' (MultiV l) p = Some (sp_score sp)))
   \<and> retrieve_context demo_env demo_bot [1, 1] (demo_sparse ''q'') [[1]] demo_world
     = (Inr (''c'' @ nlnl @ ''ab''),
        demo_world\<lparr>trace :=
          [Storage (QueryPoints ''myRag'' (hybrid_request [1, 1] (demo_sparse ''q'') [[1]] 10 5))]\<rparr>)
   \<and> (\<exists>(results :: scored_point list) col. collections demo_world (bot_collection_name demo_bot) = Some col
         \<and> ''c'' @ nlnl @ ''ab'' = join nlnl (map (\<lambda>point. payload_text demo_env (sp_payload point)) results)
         \<and> length results \<le> 5
         \<and> sorted_wrt (\<lambda>a b. sp_score b \<le> sp_score a) results
         \<and> (\<forall>sp\<in>set results. \<exists>p\<in>set (points col). sp_id sp = pid p \<and> sp_payload sp = payload p
               \<and> score_in demo_env ''colbertv2.0'' (MultiV [[1]]) p = Some (sp_score sp)))
   \<and> (dense_query_embed demo_env ''q'' = Inr [1, 1] \<and> bm25_query_embed demo_env ''q'' = Inr (demo_sparse ''q'')
        \<and> colbert_query_embed demo_env ''q'' = Inr [[1]]
        \<and> \<not> fault demo_env (QueryPoints (r_collection_name demo_retriever)
                                (hybrid_request [1, 1] (demo_sparse ''q'') [[1]] 20 10))
        \<and> collections demo_world (r_collection_name demo_retriever) \<noteq> None)"
proof -
  note t = retrieve_bounded_and_ordered [of demo_env demo_retriever "''q''" 10 demo_world
      "[[(''text'', ''c'')], [(''text'', ''ab'')]]" _ demo_bot "[1, 1]" "demo_sparse ''q''" "[[1]]"
      "''c'' @ nlnl @ ''ab''" _]
  note a = t [THEN conjunct1, THEN mp, OF retrieve_demo]
  note b = t [THEN conjunct2, THEN conjunct1, THEN mp, OF retrieve_context_demo]
  have c: "dense_query_embed demo_env ''q'' = Inr [1, 1] \<and> bm25_query_embed demo_env ''q'' = Inr (demo_sparse ''q'')
        \<and> colbert_query_embed demo_env ''q'' = Inr [[1]]
        \<and> \<not> fault demo_env (QueryPoints (r_collection_name demo_retriever)
                                (hybrid_request [1, 1] (demo_sparse ''q'') [[1]] 20 10))
        \<and> collections demo_world (r_collection_name demo_retriever) \<noteq> None"
    by (simp add: demo_env_def demo_world_def demo_retriever_def)
  show ?thesis
    by (intro conjI) (rule retrieve_demo, rule a, rule retrieve_context_demo, rule b, insert c, simp_all)
qed

section \<open>The shape of the hybrid query\<close>

lemma print_points_trace:
  "\<exists>prints. trace (print_points E ps w) = trace w @ map Print prints
     \<and> collections (print_points E ps w) = collections w"
proof (induction ps arbitrary: w)
  case Nil
  show ?case by (intro exI [of _ "[]"]) simp
next
  case (Cons p ps)
  let ?w = "print (replicate 40 CHR ''-'') (print (str_payload E (sp_payload p)) w)"
  from Cons [of ?w] obtain prints where "trace (print_points E ps ?w) = trace ?w @ map Print prints"
    and "collections (print_points E ps ?w) = collections ?w" by blast
  then show ?case
    by (intro exI [of _ "str_payload E (sp_payload p) # replicate 40 CHR ''-'' # prints"])
       (simp add: print_def emit_def)
qed

text \<open>
  C2. When the three query embeddings succeed, a call of \<open>retrieve\<close> makes exactly one
  storage query, after the three embeddings; its request carries exactly two prefetches, the
  dense one and the sparse one, each with limit 20. The search script sends the same request
  (limits 20 and 10), the chat pipeline sends it with prefetch limit 10 and result limit 5.
  The storage engine answers such a request with the candidates of the two prefetches (each
  at most the prefetch limit), joined and deduplicated by point id, scored in the
  late-interaction space, ordered by descending score and only then truncated to the limit.
\<close>

theorem two_prefetches_then_rerank:
  assumes "dense_query_embed E query = Inr d"
    and "bm25_query_embed E query = Inr s"
    and "colbert_query_embed E query = Inr l"
  shows "trace (snd (retrieve E r query k w))
           = trace w @ [QueryEmbed DenseModel query, QueryEmbed Bm25Model query,
                        QueryEmbed ColbertModel query,
                        Storage (QueryPoints (r_collection_name r) (hybrid_request d s l 20 k))]
       \<and> (\<exists>prints. trace (snd (search_turn E query w))
           = trace w @ [QueryEmbed DenseModel query, QueryEmbed Bm25Model query,
                        QueryEmbed ColbertModel query,
                        Storage (QueryPoints ''myRag'' (hybrid_request d s l 20 10))]
               @ map Print prints)
       \<and> trace (snd (retrieve_context E rag_bot d s l w))
           = trace w @ [Storage (QueryPoints (bot_collection_name rag_bot) (hybrid_request d s l 10 5))]
       \<and> qr_prefetch (hybrid_request d s l n k)
           = [\<lparr>pf_query = DenseV d, pf_using = ''all-MiniLM-L6-v2'', pf_limit = n\<rparr>,
              \<lparr>pf_query = SparseV s, pf_using = ''bm25'', pf_limit = n\<rparr>]
       \<and> search E ps (hybrid_request d s l n k)
           = map (to_scored E ''colbertv2.0'' (MultiV l))
               (take k (sort_key (\<lambda>p. - the (score_in E ''colbertv2.0'' (MultiV l) p))
                  (filter (\<lambda>p. score_in E ''colbertv2.0'' (MultiV l) p \<noteq> None)
                     (dedup_by_id (top_k E ''all-MiniLM-L6-v2'' (DenseV d) n ps
                                   @ top_k E ''bm25'' (SparseV s) n ps)))))
       \<and> length (top_k E ''all-MiniLM-L6-v2'' (DenseV d) n ps) \<le> n
       \<and> length (top_k E ''bm25'' (SparseV s) n ps) \<le> n
       \<and> distinct (map pid (dedup_by_id (top_k E ''all-MiniLM-L6-v2'' (DenseV d) n ps
                                           @ top_k E ''bm25'' (SparseV s) n ps)))
       \<and> (\<not> fault E (QueryPoints (r_collection_name r) (hybrid_request d s l 20 k)) \<longrightarrow>
            (\<forall>col. collections w (r_collection_name r) = Some col \<longrightarrow>
               fst (retrieve E r query k w)
                 = Inr (map sp_payload (search E (points col) (hybrid_request d s l 20 k)))))"
proof (intro conjI)
  show "trace (snd (retrieve E r query k w))
           = trace w @ [QueryEmbed DenseModel query, QueryEmbed Bm25Model query,
                        QueryEmbed ColbertModel query,
                        Storage (QueryPoints (r_collection_name r) (hybrid_request d s l 20 k))]"
    using assms
    by (simp add: retrieve_def query_embed_def query_points_def Let_def emit_def
          split: option.splits)
next
  let ?w3 = "emit (QueryEmbed ColbertModel query) (emit (QueryEmbed Bm25Model query)
                   (emit (QueryEmbed DenseModel query) w))"
  let ?req = "hybrid_request d s l 20 10"
  show "\<exists>prints. trace (snd (search_turn E query w))
           = trace w @ [QueryEmbed DenseModel query, QueryEmbed Bm25Model query,
                        QueryEmbed ColbertModel query,
                        Storage (QueryPoints ''myRag'' (hybrid_request d s l 20 10))]
               @ map Print prints"
  proof (cases "query_points E ''myRag'' ?req ?w3")
    case (Pair res w4)
    have tr: "trace w4 = trace ?w3 @ [Storage (QueryPoints ''myRag'' ?req)]"
      using query_points_trace [of E "''myRag''" ?req ?w3] Pair by simp
    show ?thesis
    proof (cases res)
      case (Inl e)
      with Pair tr assms show ?thesis
        by (intro exI [of _ "[]"]) (simp add: search_turn_def query_embed_def emit_def)
    next
      case (Inr results)
      let ?w5 = "print (str_nat (length results)) (print (nl @ ''[RESULTS]'') w4)"
      from print_points_trace [of E results ?w5] obtain prints
        where "trace (print_points E results ?w5) = trace ?w5 @ map Print prints" by blast
      with Inr Pair tr assms show ?thesis
        by (intro exI [of _ "(nl @ ''[RESULTS]'') # str_nat (length results) # prints"])
           (simp add: search_turn_def query_embed_def emit_def print_def)
    qed
  qed
next
  show "trace (snd (retrieve_context E rag_bot d s l w))
           = trace w @ [Storage (QueryPoints (bot_collection_name rag_bot) (hybrid_request d s l 10 5))]"
    by (simp add: retrieve_context_def query_points_def Let_def emit_def split: option.splits)
next
  show "qr_prefetch (hybrid_request d s l n k)
           = [\<lparr>pf_query = DenseV d, pf_using = ''all-MiniLM-L6-v2'', pf_limit = n\<rparr>,
              \<lparr>pf_query = SparseV s, pf_using = ''bm25'', pf_limit = n\<rparr>]"
    by (simp add: hybrid_request_def)
next
  show "search E ps (hybrid_request d s l n k)
           = map (to_scored E ''colbertv2.0'' (MultiV l))
               (take k (sort_key (\<lambda>p. - the (score_in E ''colbertv2.0'' (MultiV l) p))
                  (filter (\<lambda>p. score_in E ''colbertv2.0'' (MultiV l) p \<noteq> None)
                     (dedup_by_id (top_k E ''all-MiniLM-L6-v2'' (DenseV d) n ps
                                   @ top_k E ''bm25'' (SparseV s) n ps)))))"
    by (simp add: search_def candidates_def run_prefetch_def hybrid_request_def top_k_def)
next
  show "length (top_k E ''all-MiniLM-L6-v2'' (DenseV d) n ps) \<le> n" by (rule top_k_length)
next
  show "length (top_k E ''bm25'' (SparseV s) n ps) \<le> n" by (rule top_k_length)
next
  show "distinct (map pid (dedup_by_id (top_k E ''all-MiniLM-L6-v2'' (DenseV d) n ps
                                           @ top_k E ''bm25'' (SparseV s) n ps)))"
    by (rule dedup_by_id_distinct)
next
  show "\<not> fault E (QueryPoints (r_collection_name r) (hybrid_request d s l 20 k)) \<longrightarrow>
            (\<forall>col. collections w (r_collection_name r) = Some col \<longrightarrow>
               fst (retrieve E r query k w)
                 = Inr (map sp_payload (search E (points col) (hybrid_request d s l 20 k))))"
    using assms
    by (simp add: retrieve_def query_embed_def query_points_def Let_def emit_def)
qed

theorem two_prefetches_then_rerank_witness:
  "dense_query_embed demo_env ''q'' = Inr [1, 1]
   \<and> bm25_query_embed demo_env ''q'' = Inr (demo_sparse ''q'')
   \<and> colbert_query_embed demo_env ''q'' = Inr [[1]]
   \<and> trace (snd (retrieve demo_env demo_retriever ''q'' 10 demo_world))
       = trace demo_world @ [QueryEmbed DenseModel ''q'', QueryEmbed Bm25Model ''q'',
                             QueryEmbed ColbertModel ''q'',
                             Storage (QueryPoints (r_collection_name demo_retriever)
                               (hybrid_request [1, 1] (demo_sparse ''q'') [[1]] 20 10))]
   \<and> qr_prefetch (hybrid_request [1, 1] (demo_sparse ''q'') [[1]] 20 10)
       = [\<lparr>pf_query = DenseV [1, 1], pf_using = ''all-MiniLM-L6-v2'', pf_limit = 20\<rparr>,
          \<lparr>pf_query = SparseV (demo_sparse ''q''), pf_using = ''bm25'', pf_limit = 20\<rparr>]
   \<and> fst (retrieve demo_env demo_retriever ''q'' 10 demo_world)
       = Inr (map sp_payload (search demo_env demo_points
                (hybrid_request [1, 1] (demo_sparse ''q'') [[1]] 20 10)))"
proof -
  have h1: "dense_query_embed demo_env ''q'' = Inr [1, 1]" by (simp add: demo_env_def)
  have h2: "bm25_query_embed demo_env ''q'' = Inr (demo_sparse ''q'')" by (simp add: demo_env_def)
  have h3: "colbert_query_embed demo_env ''q'' = Inr [[1]]" by (simp add: demo_env_def)
  note t = two_prefetches_then_rerank [OF h1 h2 h3,
      where r = demo_retriever and k = 10 and w = demo_world and n = 20]
  note a = t [THEN conjunct1]
  note b = t [THEN conjunct2, THEN conjunct2, THEN conjunct2, THEN conjunct1]
  note c = t [THEN conjunct2, THEN conjunct2, THEN conjunct2, THEN conjunct2, THEN conjunct2,
      THEN conjunct2, THEN conjunct2, THEN conjunct2]
  have nf: "\<not> fault demo_env (QueryPoints (r_collection_name demo_retriever)
                (hybrid_request [1, 1] (demo_sparse ''q'') [[1]] 20 10))"
    by (simp add: demo_env_def)
  have col: "collections demo_world (r_collection_name demo_retriever)
               = Some \<lparr>config = rag_schema, points = demo_points\<rparr>"
    by (simp add: demo_world_def demo_retriever_def)
  from c nf col have d: "fst (retrieve demo_env demo_retriever ''q'' 10 demo_world)
       = Inr (map sp_payload (search demo_env (points \<lparr>config = rag_schema, points = demo_points\<rparr>)
                (hybrid_request [1, 1] (demo_sparse ''q'') [[1]] 20 10)))"
    by blast
  from h1 h2 h3 a b d show ?thesis by simp
qed

section \<open>Retrieval from a missing collection\<close>

lemma retriever_init_empty:
  "retriever_init demo_env ''./Qdrant'' ''myRag'' empty_world
     = (Inr demo_retriever,
        empty_world\<lparr>trace :=
          [Storage (CollectionExists ''myRag''),
           Print (''[INFO] Collection '' @ quoted ''myRag''
                  @ '' does not exist. Please create it first.'')]\<rparr>)"
  by (simp add: retriever_init_def check_collection_def collection_exists_def print_def
        demo_defs emit_def Let_def)

text \<open>
  C3 does not hold for \<open>QdrantRetriever\<close>. On a storage without the collection, its
  constructor only prints a notice and returns the retriever; \<open>retrieve\<close> then computes the
  three query embeddings and only the storage query reports that the collection is missing.
  \<open>RAGChatbot\<close>, the sibling in the chat pipeline, does fail at construction, before any
  embedding.
\<close>

theorem retrieve_missing_collection_embeds_first:
  "retriever_init demo_env ''./Qdrant'' ''myRag'' empty_world
     = (Inr demo_retriever,
        empty_world\<lparr>trace :=
          [Storage (CollectionExists ''myRag''),
           Print (''[INFO] Collection '' @ quoted ''myRag''
                  @ '' does not exist. Please create it first.'')]\<rparr>)
   \<and> retrieve demo_env demo_retriever ''q'' 10 empty_world
     = (Inl (CollectionNotFound ''myRag''),
        empty_world\<lparr>trace :=
          [QueryEmbed DenseModel ''q'', QueryEmbed Bm25Model ''q'', QueryEmbed ColbertModel ''q'',
           Storage (QueryPoints ''myRag'' (hybrid_request [1, 1] (demo_sparse ''q'') [[1]] 20 10))]\<rparr>)
   \<and> chatbot_init demo_env ''myRag'' empty_world
     = (Inl (PyException (''Collection '' @ quoted ''myRag''
                          @ '' does not exist. Please create it first.'')),
        empty_world\<lparr>trace := [Storage (CollectionExists ''myRag'')]\<rparr>)"
proof (intro conjI)
  show "retriever_init demo_env ''./Qdrant'' ''myRag'' empty_world
     = (Inr demo_retriever,
        empty_world\<lparr>trace :=
          [Storage (CollectionExists ''myRag''),
           Print (''[INFO] Collection '' @ quoted ''myRag''
                  @ '' does not exist. Please create it first.'')]\<rparr>)"
    by (rule retriever_init_empty)
next
  show "retrieve demo_env demo_retriever ''q'' 10 empty_world
     = (Inl (CollectionNotFound ''myRag''),
        empty_world\<lparr>trace :=
          [QueryEmbed DenseModel ''q'', QueryEmbed Bm25Model ''q'', QueryEmbed ColbertModel ''q'',
           Storage (QueryPoints ''myRag'' (hybrid_request [1, 1] (demo_sparse ''q'') [[1]] 20 10))]\<rparr>)"
    by (simp add: retrieve_def query_embed_def demo_defs engine_defs)
next
  show "chatbot_init demo_env ''myRag'' empty_world
     = (Inl (PyException (''Collection '' @ quoted ''myRag''
                          @ '' does not exist. Please create it first.'')),
        empty_world\<lparr>trace := [Storage (CollectionExists ''myRag'')]\<rparr>)"
    by (simp add: chatbot_init_def collection_exists_def demo_defs emit_def Let_def)
qed

section \<open>Summarizing a collection of more than one page\<close>

lemma total_tokens_replicate: "total_tokens E (replicate n c) = int n * tokens E c"
  by (induction n) (simp_all add: algebra_simps)

lemma chunks_text_replicate_set: "set (chunks_text (replicate n c)) \<subseteq> set c \<union> set nlnl"
  by (induction n) auto

lemma scroll_large:
  "scroll demo_env ''myRag'' 1000 large_world
     = (Inr (replicate 1000 (make_point ''u'' ''a'' [1, 1] (demo_sparse ''a'') [[1]]), Some 1000),
        large_world\<lparr>trace := [Storage (Scroll ''myRag'' 1000)]\<rparr>)"
  by (simp add: scroll_def demo_env_def large_world_def many_points_def emit_def Let_def)

lemma strip_ok: "strip '' ok '' = ''ok''"
  by (simp add: strip_def is_space_def)

text \<open>
  C9 does not hold. \<open>summarize_full_document\<close> scrolls once, with limit 1000, and never
  follows the offset of the next page. On a collection of 1001 points whose texts together
  count 1004 tokens, far below the budget of 120000, the document text holds the first 1000
  chunks only: the text of the last point is never considered.
\<close>

theorem summarize_reads_first_page_only:
  "summarize_full_document demo_env demo_bot ''gemma3:4b'' 120000 large_world
     = (Inr ''ok'',
        large_world\<lparr>trace :=
          [Storage (Scroll ''myRag'' 1000),
           HttpPost ''gemma3:4b'' (summarize_prompt (chunks_text (replicate 1000 ''a'')))]\<rparr>)
   \<and> length many_points = 1001
   \<and> payload (last many_points) = [(''text'', ''LAST'')]
   \<and> CHR ''L'' \<notin> set (summarize_prompt (chunks_text (replicate 1000 ''a'')))
   \<and> total_tokens demo_env (map (\<lambda>point. payload_text demo_env (payload point)) many_points) = 1004"
proof (intro conjI)
  have tok: "total_tokens demo_env (replicate 1000 ''a'') = 1000"
    by (simp add: total_tokens_replicate tokens_def demo_env_def)
  have loop: "document_loop demo_env 120000 (replicate 1000 ''a'') ([], 0)
                = (chunks_text (replicate 1000 ''a''), 1000)"
    using document_loop_all_fit [of 0 demo_env "replicate 1000 ''a''" 120000 "[]"] tok by simp
  have text_a: "payload_text demo_env (payload (make_point ''u'' ''a'' [1, 1] (demo_sparse ''a'') [[1]])) = ''a''"
    by (simp add: payload_text_def make_point_def)
  have post: "ollama demo_env ''gemma3:4b'' p = Inr (Some '' ok '')" for p
    by (simp add: demo_env_def)
  show "summarize_full_document demo_env demo_bot ''gemma3:4b'' 120000 large_world
     = (Inr ''ok'',
        large_world\<lparr>trace :=
          [Storage (Scroll ''myRag'' 1000),
           HttpPost ''gemma3:4b'' (summarize_prompt (chunks_text (replicate 1000 ''a'')))]\<rparr>)"
    by (simp add: summarize_full_document_def demo_bot_def scroll_large text_a loop
          post_generate_def post strip_ok emit_def Let_def)
next
  show "length many_points = 1001" by (simp add: many_points_def)
next
  show "payload (last many_points) = [(''text'', ''LAST'')]"
    by (simp add: many_points_def make_point_def)
next
  have "set (summarize_prompt (chunks_text (replicate 1000 ''a'')))
          \<subseteq> set ''Summarize the following document:'' \<union> set nlnl \<union> set ''a'' \<union> set ''Summary:''"
    using chunks_text_replicate_set [of 1000 "''a''"] by (auto simp: summarize_prompt_def)
  then show "CHR ''L'' \<notin> set (summarize_prompt (chunks_text (replicate 1000 ''a'')))"
    by (auto simp: nlnl_def)
next
  show "total_tokens demo_env (map (\<lambda>point. payload_text demo_env (payload point)) many_points) = 1004"
    by (simp add: many_points_def total_tokens_def payload_text_def make_point_def tokens_def
          demo_env_def sum_list_replicate)
qed

section \<open>The index writer\<close>

lemma map_raise_map:
  "(\<And>x. x \<in> set xs \<Longrightarrow> f x = Inr (g x)) \<Longrightarrow> map_raise f xs = Inr (map g xs)"
  by (induction xs) simp_all

lemma map_raise_Inr:
  "map_raise f xs = Inr ys \<Longrightarrow> length ys = length xs \<and> (\<forall>i<length xs. f (xs ! i) = Inr (ys ! i))"
proof (induction xs arbitrary: ys)
  case Nil
  then show ?case by simp
next
  case (Cons x xs)
  from Cons.prems obtain y ys' where y: "f x = Inr y" and ys': "map_raise f xs = Inr ys'"
    and ys: "ys = y # ys'"
    by (auto split: sum.splits)
  from Cons.IH [OF ys'] y ys show ?case
    by (auto simp: nth_Cons split: nat.splits)
qed

lemma foldl_upsert_fresh:
  "distinct (map pid (ps @ new)) \<Longrightarrow> foldl upsert_point ps new = ps @ new"
proof (induction new arbitrary: ps)
  case Nil
  then show ?case by simp
next
  case (Cons p new)
  from Cons.prems have fresh: "pid p \<notin> set (map pid ps)" by auto
  then have step: "upsert_point ps p = ps @ [p]" by (simp add: upsert_point_def)
  from Cons.prems have "distinct (map pid ((ps @ [p]) @ new))" by simp
  from Cons.IH [OF this] step show ?case by simp
qed

lemma upsert_ok:
  assumes "\<not> fault E (Upsert name ps)" and "collections w name = Some col"
    and "distinct (map pid (points col @ ps))"
  shows "\<exists>w'. upsert E name ps w = (Inr (), w')
           \<and> collections w' = (collections w)(name \<mapsto> col\<lparr>points := points col @ ps\<rparr>)"
  using assms by (simp add: upsert_def Let_def emit_def foldl_upsert_fresh)

lemma upsert_fault:
  assumes "fault E (Upsert name ps)"
  shows "\<exists>w'. upsert E name ps w = (Inl storage_failure, w') \<and> collections w' = collections w"
  using assms by (simp add: upsert_def Let_def emit_def)

lemma insert_batches_fail:
  assumes "\<forall>i\<in>set (pre @ [i0]). build_batch E u i bs = Inr (B i)"
    and "\<forall>i\<in>set pre. \<not> fault E (Upsert (collection_name u) (B i))"
    and "fault E (Upsert (collection_name u) (B i0))"
    and "collections w (collection_name u) = Some col"
    and "distinct (map pid (points col @ concat (map B pre)))"
  shows "\<exists>w'. insert_batches E u bs (pre @ i0 # post) w = (Some storage_failure, w')
           \<and> collections w' (collection_name u)
               = Some (col\<lparr>points := points col @ concat (map B pre)\<rparr>)"
  using assms
proof (induction pre arbitrary: w col)
  case Nil
  from upsert_fault [OF Nil(3), of w] obtain w'
    where "upsert E (collection_name u) (B i0) w = (Inl storage_failure, w')"
      and "collections w' = collections w" by blast
  with Nil show ?case by simp
next
  case (Cons i pre)
  from Cons.prems have b: "build_batch E u i bs = Inr (B i)"
    and nf: "\<not> fault E (Upsert (collection_name u) (B i))"
    and d: "distinct (map pid (points col @ B i))" by auto
  from upsert_ok [OF nf Cons.prems(4) d] obtain w1
    where up: "upsert E (collection_name u) (B i) w = (Inr (), w1)"
      and c1: "collections w1 = (collections w)(collection_name u \<mapsto> col\<lparr>points := points col @ B i\<rparr>)"
    by blast
  let ?col = "col\<lparr>points := points col @ B i\<rparr>"
  have c1': "collections w1 (collection_name u) = Some ?col" by (simp add: c1)
  have d': "distinct (map pid (points ?col @ concat (map B pre)))"
    using Cons.prems(5) by simp
  from Cons.IH [of w1 ?col] Cons.prems c1' d'
  obtain w' where "insert_batches E u bs (pre @ i0 # post) w1 = (Some storage_failure, w')"
    and "collections w' (collection_name u) = Some (?col\<lparr>points := points ?col @ concat (map B pre)\<rparr>)"
    by auto
  with b up show ?case by simp
qed

lemma concat_batches:
  "10 * b \<le> n \<Longrightarrow>
     concat (map (\<lambda>i. map f [i ..< min (i + 10) n]) (map (\<lambda>k. 0 + k * 10) [0 ..< b]))
       = map f [0 ..< 10 * b]"
proof (induction b)
  case 0
  then show ?case by simp
next
  case (Suc b)
  then have le: "10 * b \<le> n" and m: "min (b * 10 + 10) n = 10 * b + 10" by simp_all
  have "[0 ..< 10 * Suc b] = [0 ..< 10 * b] @ [10 * b ..< 10 * b + 10]"
    using upt_add_eq_append [of 0 "10 * b" 10] by (simp add: add.commute)
  with Suc.IH [OF le] m show ?case by (simp add: mult.commute)
qed

lemma py_range_split:
  assumes "10 * b < n"
  shows "py_range 0 n 10
           = map (\<lambda>k. 0 + k * 10) [0 ..< b] @ (b * 10) # map (\<lambda>k. 0 + k * 10) [Suc b ..< (n + 9) div 10]"
proof -
  from assms have lt: "b < (n + 9) div 10" by simp
  then have split: "[0 ..< (n + 9) div 10] = [0 ..< b] @ b # [Suc b ..< (n + 9) div 10]"
    using upt_add_eq_append [of 0 b "(n + 9) div 10 - b"] upt_conv_Cons [of b "(n + 9) div 10"]
    by simp
  have count: "(n - 0 + 10 - 1) div 10 = (n + 9) div 10" by simp
  have "py_range 0 n 10 = map (\<lambda>k. 0 + k * 10) [0 ..< (n + 9) div 10]"
    unfolding py_range_def count ..
  also have "\<dots> = map (\<lambda>k. 0 + k * 10) ([0 ..< b] @ b # [Suc b ..< (n + 9) div 10])"
    using split by simp
  finally show ?thesis by simp
qed


lemma load_chunks_ok:
  assumes "read_json E (file_path u) = Inr cs"
    and "map_raise (\<lambda>chunk. getitem chunk ''content'') cs = Inr ts"
  shows "load_chunks E u w
           = (None, u\<lparr>chunks := cs, texts := ts\<rparr>,
              print (''[INFO] '' @ str_nat (length cs) @ '' chunks loaded from file'') w)"
  using assms by (simp add: load_chunks_def Let_def)

lemma embed_texts_ok:
  assumes "\<forall>t\<in>set (texts u). \<exists>d. dense_embed E t = Inr d"
    and "\<forall>t\<in>set (texts u). \<exists>s. bm25_embed E t = Inr s"
    and "\<forall>t\<in>set (texts u). \<exists>c. colbert_embed E t = Inr c"
  shows "\<exists>w'. embed_texts E u w
           = (None, u\<lparr>dense_vecs := map (\<lambda>t. projr (dense_embed E t)) (texts u),
                        sparse_vecs := map (\<lambda>t. projr (bm25_embed E t)) (texts u),
                        colbert_vecs := map (\<lambda>t. projr (colbert_embed E t)) (texts u)\<rparr>, w')
         \<and> collections w' = collections w"
proof -
  have d: "map_raise (dense_embed E) (texts u) = Inr (map (\<lambda>t. projr (dense_embed E t)) (texts u))"
    using assms(1) by (intro map_raise_map) auto
  have s: "map_raise (bm25_embed E) (texts u) = Inr (map (\<lambda>t. projr (bm25_embed E t)) (texts u))"
    using assms(2) by (intro map_raise_map) auto
  have c: "map_raise (colbert_embed E) (texts u) = Inr (map (\<lambda>t. projr (colbert_embed E t)) (texts u))"
    using assms(3) by (intro map_raise_map) auto
  show ?thesis
    by (simp add: embed_texts_def embed_all_def d s c Let_def emit_def print_def)
qed

lemma build_point_indexed:
  assumes "chunks u = cs"
    and "map_raise (\<lambda>chunk. getitem chunk ''content'') cs = Inr ts"
    and "dense_vecs u = map (\<lambda>t. projr (dense_embed E t)) ts"
    and "sparse_vecs u = map (\<lambda>t. projr (bm25_embed E t)) ts"
    and "colbert_vecs u = map (\<lambda>t. projr (colbert_embed E t)) ts"
    and "j < length cs"
  shows "build_point E u j = Inr (indexed_point E ts j)"
proof -
  from map_raise_Inr [OF assms(2)] assms(6)
  have len: "length ts = length cs" and c: "getitem (cs ! j) ''content'' = Inr (ts ! j)" by auto
  with assms show ?thesis
    by (simp add: build_point_def nth_or_raise_def indexed_point_def)
qed

lemma build_batch_indexed:
  assumes "chunks u = cs"
    and "map_raise (\<lambda>chunk. getitem chunk ''content'') cs = Inr ts"
    and "dense_vecs u = map (\<lambda>t. projr (dense_embed E t)) ts"
    and "sparse_vecs u = map (\<lambda>t. projr (bm25_embed E t)) ts"
    and "colbert_vecs u = map (\<lambda>t. projr (colbert_embed E t)) ts"
  shows "build_batch E u i 10 = Inr (map (indexed_point E ts) [i ..< min (i + 10) (length cs)])"
  unfolding build_batch_def assms(1)
  by (intro map_raise_map build_point_indexed [OF assms]) simp

text \<open>
  C5. Let a run load its chunks, set the collection up and embed all texts, and let the
  upsert of batch \<open>b\<close> (the chunks from \<open>10 * b\<close> on) fail while the upserts of the
  batches before it succeed. Then \<open>run\<close> returns \<open>False\<close>, and the collection holds exactly
  the points of the batches before \<open>b\<close>, in order: nothing is rolled back. (The ids drawn
  for these points are taken to be distinct, as fresh random ids are.)
\<close>

theorem failed_batch_keeps_earlier_batches:
  assumes json: "read_json E (file_path u) = Inr cs"
    and contents: "map_raise (\<lambda>chunk. getitem chunk ''content'') cs = Inr ts"
    and dense: "\<forall>t\<in>set ts. \<exists>d. dense_embed E t = Inr d"
    and sparse: "\<forall>t\<in>set ts. \<exists>s. bm25_embed E t = Inr s"
    and colbert: "\<forall>t\<in>set ts. \<exists>c. colbert_embed E t = Inr c"
    and setup1: "\<not> fault E (CollectionExists (collection_name u))"
    and setup2: "\<not> fault E (DeleteCollection (collection_name u))"
    and setup3: "\<not> fault E (CreateCollection (collection_name u) rag_schema)"
    and batch: "10 * b < length cs"
    and earlier: "\<forall>k<b. \<not> fault E (Upsert (collection_name u)
                     (map (indexed_point E ts) [10 * k ..< 10 * k + 10]))"
    and fails: "fault E (Upsert (collection_name u)
                     (map (indexed_point E ts) [10 * b ..< min (10 * b + 10) (length cs)]))"
    and ids: "distinct (map (uuid4 E) [0 ..< 10 * b])"
  shows "\<exists>u' w'. run E u w = (False, u', w')
           \<and> collections w' (collection_name u)
               = Some \<lparr>config = rag_schema, points = map (indexed_point E ts) [0 ..< 10 * b]\<rparr>"
proof -
  let ?name = "collection_name u"
  let ?n = "length cs"
  let ?u1 = "u\<lparr>chunks := cs, texts := ts\<rparr>"
  let ?w1 = "print (''[INFO] '' @ str_nat (length cs) @ '' chunks loaded from file'') w"
  let ?B = "\<lambda>i. map (indexed_point E ts) [i ..< min (i + 10) ?n]"
  have load: "load_chunks E u w = (None, ?u1, ?w1)"
    by (rule load_chunks_ok [OF json contents])
  from setup_collection_ok [of E ?u1 ?w1] setup1 setup2 setup3
  obtain w2 where stp: "setup_collection E ?u1 ?w1 = (None, w2)"
    and c2: "collections w2 ?name = Some \<lparr>config = rag_schema, points = []\<rparr>"
    by auto
  let ?u3 = "?u1\<lparr>dense_vecs := map (\<lambda>t. projr (dense_embed E t)) (texts ?u1),
                   sparse_vecs := map (\<lambda>t. projr (bm25_embed E t)) (texts ?u1),
                   colbert_vecs := map (\<lambda>t. projr (colbert_embed E t)) (texts ?u1)\<rparr>"
  from embed_texts_ok [of ?u1 E w2] dense sparse colbert
  obtain w3 where embed: "embed_texts E ?u1 w2 = (None, ?u3, w3)"
    and c3: "collections w3 = collections w2"
    by auto
  have build: "build_batch E ?u3 i 10 = Inr (?B i)" for i
    by (rule build_batch_indexed [OF _ contents]) simp_all
  let ?pre = "map (\<lambda>k. 0 + k * 10) [0 ..< b]"
  let ?post = "map (\<lambda>k. 0 + k * 10) [Suc b ..< (?n + 9) div 10]"
  have range: "py_range 0 ?n 10 = ?pre @ (b * 10) # ?post"
    by (rule py_range_split [OF batch])
  have pre_ok: "\<forall>i\<in>set ?pre. \<not> fault E (Upsert (collection_name ?u3) (?B i))"
  proof
    fix i assume "i \<in> set ?pre"
    then obtain k where k: "k < b" and i: "i = k * 10" by auto
    from k batch have "min (k * 10 + 10) ?n = 10 * k + 10" by simp
    with earlier k i show "\<not> fault E (Upsert (collection_name ?u3) (?B i))"
      by (simp add: mult.commute)
  qed
  have bad: "fault E (Upsert (collection_name ?u3) (?B (b * 10)))"
    using fails by (simp add: mult.commute)
  have col3: "collections w3' (collection_name ?u3) = Some \<lparr>config = rag_schema, points = []\<rparr>"
    if "collections w3' = collections w3" for w3'
    using that c2 c3 by simp
  have cat: "concat (map ?B ?pre) = map (indexed_point E ts) [0 ..< 10 * b]"
    using batch by (intro concat_batches) simp
  have pid: "map pid (map (indexed_point E ts) js) = map (uuid4 E) js" for js
    by (simp add: indexed_point_def make_point_def)
  let ?w3p = "print (''[INFO] Inserting '' @ str_nat (length (chunks ?u3))
                      @ '' points into Qdrant in batches of '' @ str_nat 10 @ ''...'') w3"
  have "collections ?w3p = collections w3" by (simp add: print_def emit_def)
  from col3 [OF this]
  have col: "collections ?w3p (collection_name ?u3) = Some \<lparr>config = rag_schema, points = []\<rparr>" .
  have e: "points \<lparr>config = rag_schema, points = []\<rparr> @ concat (map ?B ?pre)
             = map (indexed_point E ts) [0 ..< 10 * b]"
    unfolding cat by simp
  have dist: "distinct (map pid (points \<lparr>config = rag_schema, points = []\<rparr> @ concat (map ?B ?pre)))"
    unfolding e pid by (rule ids)
  from insert_batches_fail [of ?pre "b * 10" E ?u3 10 ?B ?w3p
        "\<lparr>config = rag_schema, points = []\<rparr>" ?post] build pre_ok bad col dist
  obtain w4 where ins: "insert_batches E ?u3 10 (?pre @ (b * 10) # ?post) ?w3p = (Some storage_failure, w4)"
    and c4: "collections w4 (collection_name ?u3)
               = Some (\<lparr>config = rag_schema, points = []\<rparr>\<lparr>points := points \<lparr>config = rag_schema, points = []\<rparr> @ concat (map ?B ?pre)\<rparr>)"
    by auto
  have insq: "insert_into_qdrant E ?u3 10 w3 = (Some storage_failure, w4)"
    using ins range by (simp add: insert_into_qdrant_def Let_def)
  have body: "run_body E u w = (Some storage_failure, ?u3, w4)"
    by (simp only: run_body_def load stp embed insq prod.case option.case)
  have "run E u w = (False, ?u3, print (''[ERROR] '' @ str_error storage_failure) w4)"
    by (simp only: run_def body prod.case option.case)
  moreover have "collections (print (''[ERROR] '' @ str_error storage_failure) w4) ?name
                   = Some \<lparr>config = rag_schema, points = map (indexed_point E ts) [0 ..< 10 * b]\<rparr>"
    using c4 [unfolded e] by (simp add: print_def emit_def)
  ultimately show ?thesis by blast
qed

lemma map_raise_replicate:
  "f c = Inr t \<Longrightarrow> map_raise f (replicate n c) = Inr (replicate n t)"
  by (induction n) simp_all

lemma demo_ids_distinct: "distinct (map (uuid4 faulty_env) js) = distinct js"
proof -
  have "inj_on (uuid4 faulty_env) (set js)"
  proof (rule inj_onI)
    fix x y assume "uuid4 faulty_env x = uuid4 faulty_env y"
    then have "length (replicate (Suc x) CHR ''u'') = length (replicate (Suc y) CHR ''u'')"
      by (simp add: faulty_env_def demo_env_def)
    then show "x = y" by simp
  qed
  then show ?thesis by (simp add: distinct_map)
qed

theorem failed_batch_keeps_earlier_batches_witness:
  "10 * 1 < length (replicate 12 [(''content'', ''ab'')])
   \<and> fault faulty_env (Upsert ''myRag''
         (map (indexed_point faulty_env (replicate 12 ''ab'')) [10 * 1 ..< min (10 * 1 + 10) 12]))
   \<and> \<not> fault faulty_env (Upsert ''myRag''
         (map (indexed_point faulty_env (replicate 12 ''ab'')) [10 * 0 ..< 10 * 0 + 10]))
   \<and> (\<exists>u' w'. run faulty_env (uploader_init ''twelve.json'' ''myRag'') empty_world = (False, u', w')
         \<and> collections w' ''myRag''
             = Some \<lparr>config = rag_schema,
                     points = map (indexed_point faulty_env (replicate 12 ''ab'')) [0 ..< 10 * 1]\<rparr>)"
proof -
  let ?u = "uploader_init ''twelve.json'' ''myRag''"
  let ?cs = "replicate 12 [(''content'', ''ab'')]"
  let ?ts = "replicate 12 ''ab''"
  have name: "collection_name ?u = ''myRag''" by (simp add: uploader_init_def)
  have h1: "read_json faulty_env (file_path ?u) = Inr ?cs"
    by (simp add: faulty_env_def demo_env_def uploader_init_def)
  have h2: "map_raise (\<lambda>chunk. getitem chunk ''content'') ?cs = Inr ?ts"
    by (rule map_raise_replicate) (simp add: getitem_def)
  have h3: "\<forall>t\<in>set ?ts. \<exists>d. dense_embed faulty_env t = Inr d"
    by (simp add: faulty_env_def demo_env_def)
  have h4: "\<forall>t\<in>set ?ts. \<exists>s. bm25_embed faulty_env t = Inr s"
    by (simp add: faulty_env_def demo_env_def)
  have h5: "\<forall>t\<in>set ?ts. \<exists>c. colbert_embed faulty_env t = Inr c"
    by (simp add: faulty_env_def demo_env_def)
  have h6: "\<not> fault faulty_env (CollectionExists (collection_name ?u))"
    by (simp add: faulty_env_def refuses_pairs_def)
  have h7: "\<not> fault faulty_env (DeleteCollection (collection_name ?u))"
    by (simp add: faulty_env_def refuses_pairs_def)
  have h8: "\<not> fault faulty_env (CreateCollection (collection_name ?u) rag_schema)"
    by (simp add: faulty_env_def refuses_pairs_def)
  have h9: "10 * 1 < length ?cs" by simp
  have h10: "\<forall>k<1. \<not> fault faulty_env (Upsert (collection_name ?u)
                     (map (indexed_point faulty_env ?ts) [10 * k ..< 10 * k + 10]))"
    by (simp add: faulty_env_def refuses_pairs_def)
  have h11: "fault faulty_env (Upsert (collection_name ?u)
                     (map (indexed_point faulty_env ?ts) [10 * 1 ..< min (10 * 1 + 10) (length ?cs)]))"
    by (simp add: faulty_env_def refuses_pairs_def)
  have h12: "distinct (map (uuid4 faulty_env) [0 ..< 10 * 1])"
    by (simp only: demo_ids_distinct distinct_upt)
  note t = failed_batch_keeps_earlier_batches [OF h1 h2 h3 h4 h5 h6 h7 h8 h9 h10 h11 h12, of empty_world]
  have h10': "\<not> fault faulty_env (Upsert ''myRag''
         (map (indexed_point faulty_env (replicate 12 ''ab'')) [10 * 0 ..< 10 * 0 + 10]))"
    by (simp add: faulty_env_def refuses_pairs_def)
  show ?thesis
    by (intro conjI) (rule h9, rule h11 [unfolded name length_replicate], rule h10', rule t [unfolded name])
qed

section \<open>What a run upserts and what it returns\<close>

















lemma map_raise_Inl:
  assumes "t \<in> set ts" and "f t = Inl e"
  shows "\<exists>e'. map_raise f ts = Inl e'"
  using assms by (induction ts) (auto split: sum.splits)

lemma pair_from_fst: "fst p = a \<Longrightarrow> p = (a, snd p)"
  by (cases p) simp

lemma triple_from_fst: "fst p = a \<Longrightarrow> p = (a, fst (snd p), snd (snd p))"
  by (cases p) simp

text \<open>
  C4, as amended. \<open>run\<close> never lets an exception out and returns a boolean only. It returns
  \<open>False\<close> when loading raised, when loading completed and collection setup raised, when
  both completed and embedding raised, and when these three completed and insertion raised;
  each time the exception is caught and its message printed as an \<open>[ERROR]\<close> line after
  everything done so far. It returns \<open>True\<close> when all four stages completed. In terms of
  the causes: a file that cannot be read, a storage engine that fails on the existence check,
  a dense model that raises on one of the texts and a storage engine that refuses the first
  batch each give \<open>False\<close>.
\<close>

theorem run_returns_a_boolean_only:
  "((\<exists>u' w'. run E u w = (True, u', w') \<and> run_body E u w = (None, u', w'))
    \<or> (\<exists>e u' w0. run E u w = (False, u', print (''[ERROR] '' @ str_error e) w0)
           \<and> run_body E u w = (Some e, u', w0)))
   \<and> (\<forall>e. read_json E (file_path u) = Inl e \<longrightarrow>
          run E u w = (False, u, print (''[ERROR] '' @ str_error e) w))
   \<and> (\<forall>e u1 w1. load_chunks E u w = (Some e, u1, w1) \<longrightarrow>
          run E u w = (False, u1, print (''[ERROR] '' @ str_error e) w1))
   \<and> (\<forall>e u1 w1 w2. load_chunks E u w = (None, u1, w1) \<and> setup_collection E u1 w1 = (Some e, w2) \<longrightarrow>
          run E u w = (False, u1, print (''[ERROR] '' @ str_error e) w2))
   \<and> (\<forall>e u1 w1 w2 u3 w3. load_chunks E u w = (None, u1, w1) \<and> setup_collection E u1 w1 = (None, w2)
          \<and> embed_texts E u1 w2 = (Some e, u3, w3) \<longrightarrow>
          run E u w = (False, u3, print (''[ERROR] '' @ str_error e) w3))
   \<and> (\<forall>e u1 w1 w2 u3 w3 w4. load_chunks E u w = (None, u1, w1) \<and> setup_collection E u1 w1 = (None, w2)
          \<and> embed_texts E u1 w2 = (None, u3, w3) \<and> insert_into_qdrant E u3 10 w3 = (Some e, w4) \<longrightarrow>
          run E u w = (False, u3, print (''[ERROR] '' @ str_error e) w4))
   \<and> (\<forall>u1 w1 w2 u3 w3 w4. load_chunks E u w = (None, u1, w1) \<and> setup_collection E u1 w1 = (None, w2)
          \<and> embed_texts E u1 w2 = (None, u3, w3) \<and> insert_into_qdrant E u3 10 w3 = (None, w4) \<longrightarrow>
          run E u w = (True, u3, w4))
   \<and> (\<forall>u1 w1. load_chunks E u w = (None, u1, w1) \<and> fault E (CollectionExists (collection_name u1)) \<longrightarrow>
          fst (run E u w) = False)
   \<and> (\<forall>u1 w1 w2 t e. load_chunks E u w = (None, u1, w1) \<and> setup_collection E u1 w1 = (None, w2)
          \<and> t \<in> set (texts u1) \<and> dense_embed E t = Inl e \<longrightarrow>
          fst (run E u w) = False)
   \<and> (\<forall>u1 w1 w2 u3 w3 ps. load_chunks E u w = (None, u1, w1) \<and> setup_collection E u1 w1 = (None, w2)
          \<and> embed_texts E u1 w2 = (None, u3, w3) \<and> chunks u3 \<noteq> []
          \<and> build_batch E u3 0 10 = Inr ps \<and> fault E (Upsert (collection_name u3) ps) \<longrightarrow>
          fst (run E u w) = False)"
proof (intro conjI allI impI)
  obtain r u1 w1 where rb: "run_body E u w = (r, u1, w1)" by (cases "run_body E u w")
  show "(\<exists>u' w'. run E u w = (True, u', w') \<and> run_body E u w = (None, u', w'))
    \<or> (\<exists>e u' w0. run E u w = (False, u', print (''[ERROR] '' @ str_error e) w0)
           \<and> run_body E u w = (Some e, u', w0))"
  proof (cases r)
    case None
    with rb show ?thesis by (simp add: run_def)
  next
    case (Some err)
    with rb show ?thesis by (simp add: run_def)
  qed
next
  fix e assume "read_json E (file_path u) = Inl e"
  then show "run E u w = (False, u, print (''[ERROR] '' @ str_error e) w)"
    by (simp add: run_def run_body_def load_chunks_def)
next
  fix e u1 w1 assume "load_chunks E u w = (Some e, u1, w1)"
  then show "run E u w = (False, u1, print (''[ERROR] '' @ str_error e) w1)"
    by (simp add: run_def run_body_def)
next
  fix e u1 w1 w2
  assume "load_chunks E u w = (None, u1, w1) \<and> setup_collection E u1 w1 = (Some e, w2)"
  then show "run E u w = (False, u1, print (''[ERROR] '' @ str_error e) w2)"
    by (simp add: run_def run_body_def)
next
  fix e u1 w1 w2 u3 w3
  assume "load_chunks E u w = (None, u1, w1) \<and> setup_collection E u1 w1 = (None, w2)
          \<and> embed_texts E u1 w2 = (Some e, u3, w3)"
  then show "run E u w = (False, u3, print (''[ERROR] '' @ str_error e) w3)"
    by (simp add: run_def run_body_def)
next
  fix e u1 w1 w2 u3 w3 w4
  assume "load_chunks E u w = (None, u1, w1) \<and> setup_collection E u1 w1 = (None, w2)
          \<and> embed_texts E u1 w2 = (None, u3, w3) \<and> insert_into_qdrant E u3 10 w3 = (Some e, w4)"
  then show "run E u w = (False, u3, print (''[ERROR] '' @ str_error e) w4)"
    by (simp add: run_def run_body_def)
next
  fix u1 w1 w2 u3 w3 w4
  assume "load_chunks E u w = (None, u1, w1) \<and> setup_collection E u1 w1 = (None, w2)
          \<and> embed_texts E u1 w2 = (None, u3, w3) \<and> insert_into_qdrant E u3 10 w3 = (None, w4)"
  then show "run E u w = (True, u3, w4)"
    by (simp add: run_def run_body_def)
next
  fix u1 w1
  assume a: "load_chunks E u w = (None, u1, w1) \<and> fault E (CollectionExists (collection_name u1))"
  then have "fst (setup_collection E u1 w1) = Some storage_failure"
    by (simp add: setup_collection_def collection_exists_def Let_def)
  moreover obtain r w2 where "setup_collection E u1 w1 = (r, w2)"
    by (cases "setup_collection E u1 w1")
  ultimately have "setup_collection E u1 w1 = (Some storage_failure, w2)" by simp
  with a show "fst (run E u w) = False" by (simp add: run_def run_body_def)
next
  fix u1 w1 w2 t e
  assume a: "load_chunks E u w = (None, u1, w1) \<and> setup_collection E u1 w1 = (None, w2)
          \<and> t \<in> set (texts u1) \<and> dense_embed E t = Inl e"
  then obtain e' where "map_raise (dense_embed E) (texts u1) = Inl e'"
    using map_raise_Inl [of t "texts u1" "dense_embed E" e] by blast
  then have "embed_texts E u1 w2
               = (Some e', u1, emit (Embed DenseModel (texts u1)) (print ''[INFO] Generating embeddings...'' w2))"
    by (simp add: embed_texts_def embed_all_def Let_def)
  with a show "fst (run E u w) = False" by (simp add: run_def run_body_def)
next
  fix u1 w1 w2 u3 w3 ps
  assume a: "load_chunks E u w = (None, u1, w1) \<and> setup_collection E u1 w1 = (None, w2)
          \<and> embed_texts E u1 w2 = (None, u3, w3) \<and> chunks u3 \<noteq> []
          \<and> build_batch E u3 0 10 = Inr ps \<and> fault E (Upsert (collection_name u3) ps)"
  then have "10 * 0 < length (chunks u3)" by simp
  from py_range_split [OF this]
  have range: "py_range 0 (length (chunks u3)) 10
                 = 0 # map (\<lambda>k. 0 + k * 10) [Suc 0 ..< (length (chunks u3) + 9) div 10]"
    by simp
  let ?w0 = "print (''[INFO] Inserting '' @ str_nat (length (chunks u3))
                      @ '' points into Qdrant in batches of '' @ str_nat 10 @ ''...'') w3"
  let ?offs = "map (\<lambda>k. 0 + k * 10) [Suc 0 ..< (length (chunks u3) + 9) div 10]"
  from a have f: "fault E (Upsert (collection_name u3) ps)" and b: "build_batch E u3 0 10 = Inr ps"
    by simp_all
  from upsert_fault [OF f, of ?w0] obtain w4
    where up: "upsert E (collection_name u3) ps ?w0 = (Inl storage_failure, w4)" by blast
  have ib: "insert_batches E u3 10 (0 # ?offs) ?w0 = (Some storage_failure, w4)"
    by (simp only: insert_batches.simps b up sum.case prod.case)
  have "insert_into_qdrant E u3 10 w3 = (Some storage_failure, w4)"
    unfolding insert_into_qdrant_def Let_def range ib by simp
  with a show "fst (run E u w) = False" by (simp add: run_def run_body_def)
qed


theorem run_returns_a_boolean_only_witness:
  "read_json demo_env (file_path (uploader_init ''missing.json'' ''myRag''))
     = Inl (FileError ''No such file or directory'')
   \<and> run demo_env (uploader_init ''missing.json'' ''myRag'') empty_world
     = (False, uploader_init ''missing.json'' ''myRag'',
        print (''[ERROR] '' @ str_error (FileError ''No such file or directory'')) empty_world)
   \<and> fst (load_chunks setup_fault_env (uploader_init ''two.json'' ''myRag'') empty_world) = None
   \<and> fault setup_fault_env (CollectionExists ''myRag'')
   \<and> fst (run setup_fault_env (uploader_init ''two.json'' ''myRag'') empty_world) = False
   \<and> dense_embed embed_fault_env ''ab'' = Inl (EmbeddingFailure ''model unavailable'')
   \<and> fst (run embed_fault_env (uploader_init ''two.json'' ''myRag'') empty_world) = False
   \<and> fault faulty_env (Upsert ''myRag''
         [indexed_point faulty_env [''ab'', ''c''] 0, indexed_point faulty_env [''ab'', ''c''] 1])
   \<and> fst (run faulty_env (uploader_init ''two.json'' ''myRag'') empty_world) = False
   \<and> fst (run demo_env (uploader_init ''two.json'' ''myRag'') empty_world) = True"
proof -
  let ?m = "uploader_init ''missing.json'' ''myRag''"
  let ?u = "uploader_init ''two.json'' ''myRag''"
  let ?ps = "[indexed_point faulty_env [''ab'', ''c''] 0, indexed_point faulty_env [''ab'', ''c''] 1]"
  note c1 = run_returns_a_boolean_only [THEN conjunct2, THEN conjunct1, rule_format]
  note c2 = run_returns_a_boolean_only [THEN conjunct2, THEN conjunct2, THEN conjunct1, rule_format]
  note c3 = run_returns_a_boolean_only [THEN conjunct2, THEN conjunct2, THEN conjunct2, THEN conjunct1,
      rule_format]
  note c4 = run_returns_a_boolean_only [THEN conjunct2, THEN conjunct2, THEN conjunct2, THEN conjunct2,
      THEN conjunct1, rule_format]
  note c5 = run_returns_a_boolean_only [THEN conjunct2, THEN conjunct2, THEN conjunct2, THEN conjunct2,
      THEN conjunct2, THEN conjunct1, rule_format]
  note c6 = run_returns_a_boolean_only [THEN conjunct2, THEN conjunct2, THEN conjunct2, THEN conjunct2,
      THEN conjunct2, THEN conjunct2, THEN conjunct1, rule_format]
  note c7 = run_returns_a_boolean_only [THEN conjunct2, THEN conjunct2, THEN conjunct2, THEN conjunct2,
      THEN conjunct2, THEN conjunct2, THEN conjunct2, THEN conjunct1, rule_format]
  note c8 = run_returns_a_boolean_only [THEN conjunct2, THEN conjunct2, THEN conjunct2, THEN conjunct2,
      THEN conjunct2, THEN conjunct2, THEN conjunct2, THEN conjunct2, THEN conjunct1, rule_format]
  note c9 = run_returns_a_boolean_only [THEN conjunct2, THEN conjunct2, THEN conjunct2, THEN conjunct2,
      THEN conjunct2, THEN conjunct2, THEN conjunct2, THEN conjunct2, THEN conjunct2, rule_format]

  have rj: "read_json demo_env (file_path ?m) = Inl (FileError ''No such file or directory'')"
    by (simp add: demo_env_def uploader_init_def)
  note r1 = c1 [OF rj, of empty_world]
  have "load_chunks demo_env ?m empty_world
          = (Some (FileError ''No such file or directory''), ?m, empty_world)"
    using rj by (simp add: load_chunks_def)
  note r2 = c2 [OF this]

  let ?Ls = "load_chunks setup_fault_env ?u empty_world"
  have ls: "fst ?Ls = None" by code_simp
  note Ls = triple_from_fst [OF ls]
  let ?Ss = "setup_collection setup_fault_env (fst (snd ?Ls)) (snd (snd ?Ls))"
  have "fst ?Ss = Some storage_failure" by code_simp
  note Ss = pair_from_fst [OF this]
  note r3 = c3 [OF conjI [OF Ls Ss]]
  have nm: "collection_name (fst (snd ?Ls)) = ''myRag''" by code_simp
  have fs: "fault setup_fault_env (CollectionExists ''myRag'')"
    by (simp add: setup_fault_env_def refuses_exists_def)
  have fs': "fault setup_fault_env (CollectionExists (collection_name (fst (snd ?Ls))))"
    unfolding nm by (rule fs)
  note r7 = c7 [OF conjI [OF Ls fs']]

  let ?Le = "load_chunks embed_fault_env ?u empty_world"
  have "fst ?Le = None" by code_simp
  note Le = triple_from_fst [OF this]
  let ?Se = "setup_collection embed_fault_env (fst (snd ?Le)) (snd (snd ?Le))"
  have "fst ?Se = None" by code_simp
  note Se = pair_from_fst [OF this]
  let ?Ee = "embed_texts embed_fault_env (fst (snd ?Le)) (snd ?Se)"
  have "fst ?Ee = Some (EmbeddingFailure ''model unavailable'')" by code_simp
  note Ee = triple_from_fst [OF this]
  note r4 = c4 [OF conjI [OF Le conjI [OF Se Ee]]]
  have tx: "''ab'' \<in> set (texts (fst (snd ?Le)))" by code_simp
  have de: "dense_embed embed_fault_env ''ab'' = Inl (EmbeddingFailure ''model unavailable'')"
    by (simp add: embed_fault_env_def)
  note r8 = c8 [OF conjI [OF Le conjI [OF Se conjI [OF tx de]]]]

  let ?Lf = "load_chunks faulty_env ?u empty_world"
  have "fst ?Lf = None" by code_simp
  note Lf = triple_from_fst [OF this]
  let ?Sf = "setup_collection faulty_env (fst (snd ?Lf)) (snd (snd ?Lf))"
  have "fst ?Sf = None" by code_simp
  note Sf = pair_from_fst [OF this]
  let ?Ef = "embed_texts faulty_env (fst (snd ?Lf)) (snd ?Sf)"
  have "fst ?Ef = None" by code_simp
  note Ef = triple_from_fst [OF this]
  let ?If = "insert_into_qdrant faulty_env (fst (snd ?Ef)) 10 (snd (snd ?Ef))"
  have "fst ?If = Some storage_failure" by code_simp
  note If = pair_from_fst [OF this]
  note r5 = c5 [OF conjI [OF Lf conjI [OF Sf conjI [OF Ef If]]]]
  have ne: "chunks (fst (snd ?Ef)) \<noteq> []" by code_simp
  have bb: "build_batch faulty_env (fst (snd ?Ef)) 0 10 = Inr ?ps" by code_simp
  have nf: "collection_name (fst (snd ?Ef)) = ''myRag''" by code_simp
  have ff: "fault faulty_env (Upsert ''myRag'' ?ps)"
    by (simp add: faulty_env_def refuses_pairs_def)
  have ff': "fault faulty_env (Upsert (collection_name (fst (snd ?Ef))) ?ps)"
    unfolding nf by (rule ff)
  note r9 = c9 [OF conjI [OF Lf conjI [OF Sf conjI [OF Ef conjI [OF ne conjI [OF bb ff']]]]]]

  let ?Ld = "load_chunks demo_env ?u empty_world"
  have "fst ?Ld = None" by code_simp
  note Ld = triple_from_fst [OF this]
  let ?Sd = "setup_collection demo_env (fst (snd ?Ld)) (snd (snd ?Ld))"
  have "fst ?Sd = None" by code_simp
  note Sd = pair_from_fst [OF this]
  let ?Ed = "embed_texts demo_env (fst (snd ?Ld)) (snd ?Sd)"
  have "fst ?Ed = None" by code_simp
  note Ed = triple_from_fst [OF this]
  let ?Id = "insert_into_qdrant demo_env (fst (snd ?Ed)) 10 (snd (snd ?Ed))"
  have "fst ?Id = None" by code_simp
  note Id = pair_from_fst [OF this]
  note r6 = c6 [OF conjI [OF Ld conjI [OF Sd conjI [OF Ed Id]]]]

  from r2 have a: "run demo_env ?m empty_world
     = (False, ?m, print (''[ERROR] '' @ str_error (FileError ''No such file or directory'')) empty_world)"
    by simp
  from r3 r7 have b: "fst (run setup_fault_env ?u empty_world) = False" by simp
  from r4 r8 have c: "fst (run embed_fault_env ?u empty_world) = False" by simp
  from r5 r9 have d: "fst (run faulty_env ?u empty_world) = False" by simp
  from r6 have e: "fst (run demo_env ?u empty_world) = True" by simp
  show ?thesis
    by (intro conjI) (rule rj, rule a, rule ls, rule fs, rule b, rule de, rule c, rule ff, rule d, rule e)
qed

text \<open>
  C4 as stated does not hold: the value \<open>run\<close> returns carries no point count. Two runs
  return the same value while their collections hold one point and two points.
\<close>

theorem run_result_carries_no_point_count:
  "fst (run demo_env (uploader_init ''one.json'' ''myRag'') empty_world)
     = fst (run demo_env (uploader_init ''two.json'' ''myRag'') empty_world)
   \<and> point_count (snd (snd (run demo_env (uploader_init ''one.json'' ''myRag'') empty_world))) ''myRag'' = 1
   \<and> point_count (snd (snd (run demo_env (uploader_init ''two.json'' ''myRag'') empty_world))) ''myRag'' = 2"
  by code_simp

end
